theory Spec2Isabelle
  imports Complex_Main "HOL-Library.AList"
begin

section \<open>Python values\<close>

text \<open>
  The payloads of the vendor API are parsed JSON, that is Python values built from
  \<open>None\<close>, booleans, numbers, strings, lists and dicts. The dataclasses of
  \<open>coordinator.py\<close> do no validation, so their fields hold whatever the payload held.
  Numbers are real numbers here: Python's unbounded ints are exact, and the rounding
  error of its binary floats (and NaN and the infinities) is not modelled.
  A dict is the list of its items in insertion order.
\<close>

datatype json =
    JNull
  | JBool bool
  | JNum real
  | JStr string
  | JArr "json list"
  | JObj "(string \<times> json) list"

text \<open>
  Exceptions. The two exception classes of \<open>api.py\<close> and aiohttp's \<open>ClientError\<close>
  carry their message; the message of a builtin exception is not modelled.
  \<open>UpdateFailed\<close> keeps the prefix of its message and the exception it wraps.
\<close>

datatype error =
    TadoXAuthError string
  | TadoXApiError string
  | ClientError string
  | AttributeError
  | TypeError
  | KeyError
  | ValueError
  | UpdateFailed string error

definition bind :: "error + 'a \<Rightarrow> ('a \<Rightarrow> error + 'b) \<Rightarrow> error + 'b" where
  "bind m f = (case m of Inl e \<Rightarrow> Inl e | Inr x \<Rightarrow> f x)"

text \<open>Truth value of a Python value, as \<open>if x\<close>, \<open>not x\<close> and \<open>x or y\<close> test it.\<close>

fun truthy :: "json \<Rightarrow> bool" where
  "truthy JNull = False"
| "truthy (JBool b) = b"
| "truthy (JNum x) = (x \<noteq> 0)"
| "truthy (JStr s) = (s \<noteq> [])"
| "truthy (JArr xs) = (xs \<noteq> [])"
| "truthy (JObj kvs) = (kvs \<noteq> [])"

text \<open>\<open>x or {}\<close>\<close>

definition or_empty :: "json \<Rightarrow> json" where
  "or_empty v = (if truthy v then v else JObj [])"

text \<open>
  \<open>x.get(k)\<close> and \<open>x.get(k, d)\<close>: only a dict has it, any other value raises
  AttributeError. A missing key gives \<open>None\<close>, or the default.
\<close>

fun dict_get_default :: "json \<Rightarrow> string \<Rightarrow> json \<Rightarrow> error + json" where
  "dict_get_default (JObj kvs) k d = Inr (case map_of kvs k of None \<Rightarrow> d | Some v \<Rightarrow> v)"
| "dict_get_default _ k d = Inl AttributeError"

definition dict_get :: "json \<Rightarrow> string \<Rightarrow> error + json" where
  "dict_get x k = dict_get_default x k JNull"

text \<open>\<open>x.get(k) or {}\<close>\<close>

definition dict_get_or_empty :: "json \<Rightarrow> string \<Rightarrow> error + json" where
  "dict_get_or_empty x k = bind (dict_get x k) (\<lambda>v. Inr (or_empty v))"

text \<open>
  \<open>for x in v\<close>: a list gives its elements, a dict its keys, a string its characters;
  \<open>None\<close>, a boolean and a number are not iterable.
\<close>

fun py_iter :: "json \<Rightarrow> error + json list" where
  "py_iter (JArr xs) = Inr xs"
| "py_iter (JObj kvs) = Inr (map (\<lambda>kv. JStr (fst kv)) kvs)"
| "py_iter (JStr s) = Inr (map (\<lambda>c. JStr [c]) s)"
| "py_iter _ = Inl TypeError"

subsection \<open>Dicts keyed by Python values\<close>

text \<open>
  \<open>rooms\<close>, \<open>devices\<close> and \<open>room_devices_map\<close> are dicts whose keys come from the
  payload. A list or a dict is unhashable and raises TypeError as a key. Keys are
  compared with \<open>==\<close>, for which \<open>True\<close> is 1 and \<open>False\<close> is 0. Storing under a key
  that is present replaces the value and keeps the item's key and position; a new key
  is appended.
\<close>

type_synonym 'v pydict = "(json \<times> 'v) list"

fun hashable :: "json \<Rightarrow> bool" where
  "hashable (JArr xs) = False"
| "hashable (JObj kvs) = False"
| "hashable _ = True"

fun key_norm :: "json \<Rightarrow> json" where
  "key_norm (JBool b) = JNum (if b then 1 else 0)"
| "key_norm j = j"

fun pd_lookup :: "'v pydict \<Rightarrow> json \<Rightarrow> 'v option" where
  "pd_lookup [] k = None"
| "pd_lookup ((k', v) # d) k =
     (if key_norm k' = key_norm k then Some v else pd_lookup d k)"

fun pd_update :: "'v pydict \<Rightarrow> json \<Rightarrow> 'v \<Rightarrow> 'v pydict" where
  "pd_update [] k v = [(k, v)]"
| "pd_update ((k', v') # d) k v =
     (if key_norm k' = key_norm k then (k', v) # d else (k', v') # pd_update d k v)"

text \<open>\<open>d[k] = v\<close>\<close>

definition pd_store :: "'v pydict \<Rightarrow> json \<Rightarrow> 'v \<Rightarrow> error + 'v pydict" where
  "pd_store d k v = (if hashable k then Inr (pd_update d k v) else Inl TypeError)"

text \<open>\<open>k in d\<close>\<close>

definition pd_member :: "'v pydict \<Rightarrow> json \<Rightarrow> error + bool" where
  "pd_member d k = (if hashable k then Inr (pd_lookup d k \<noteq> None) else Inl TypeError)"

text \<open>\<open>d.get(k, dflt)\<close>\<close>

definition pd_get :: "'v pydict \<Rightarrow> json \<Rightarrow> 'v \<Rightarrow> error + 'v" where
  "pd_get d k dflt =
     (if hashable k then Inr (case pd_lookup d k of None \<Rightarrow> dflt | Some v \<Rightarrow> v)
      else Inl TypeError)"

section \<open>The data model of coordinator.py\<close>

text \<open>
  The three dataclasses. Two of them have a \<open>room_id\<close> and a \<open>connection_state\<close>, and
  two a \<open>devices\<close>; \<open>power\<close> is a constant of HOL. The fields of \<open>TadoXRoom\<close> carry
  the prefix \<open>rm_\<close> where the name is taken. Python's \<open>None\<close> is \<open>JNull\<close>.
\<close>

record TadoXDevice =
  serial_number :: json
  device_type :: json
  firmware_version :: json
  connection_state :: json
  battery_state :: json
  temperature_measured :: json
  temperature_offset :: json
  mounting_state :: json
  child_lock_enabled :: json
  room_id :: json
  room_name :: json

record TadoXRoom =
  rm_room_id :: json
  name :: json
  current_temperature :: json
  target_temperature :: json
  humidity :: json
  heating_power :: json
  rm_power :: json
  rm_connection_state :: json
  manual_control_active :: bool
  manual_control_remaining_seconds :: json
  manual_control_type :: json
  boost_mode :: bool
  open_window_detected :: bool
  next_schedule_change :: json
  next_schedule_temperature :: json
  rm_devices :: "TadoXDevice list"

record TadoXData =
  home_id :: int
  home_name :: string
  presence :: json
  rooms :: "TadoXRoom pydict"
  devices :: "TadoXDevice pydict"
  other_devices :: "TadoXDevice list"

section \<open>Normalisation of one room-state payload\<close>

text \<open>
  Lines 196 to 255 of \<open>_async_update_data\<close>: the body of the loop over \<open>rooms_data\<close>
  up to the construction of the room, whose device list is still empty. The result
  \<open>None\<close> is the \<open>continue\<close> of a payload without a (truthy) id. \<open>py_str\<close> is
  Python's \<open>str\<close>, which formats the room id into the default name.
\<close>

definition manual_control_fields :: "json \<Rightarrow> error + json \<times> json" where
  "manual_control_fields manual_control =
     (if truthy manual_control then
        bind (dict_get manual_control ''remainingTimeInSeconds'') (\<lambda>manual_remaining.
        bind (dict_get manual_control ''type'') (\<lambda>manual_type.
        Inr (manual_remaining, manual_type)))
      else Inr (JNull, JNull))"

definition build_room :: "(json \<Rightarrow> string) \<Rightarrow> json \<Rightarrow> error + TadoXRoom option" where
  "build_room py_str room_data =
     bind (dict_get room_data ''id'') (\<lambda>room_id.
     if \<not> truthy room_id then Inr None else
     bind (dict_get_or_empty room_data ''sensorDataPoints'') (\<lambda>sensor_data.
     bind (dict_get_or_empty sensor_data ''insideTemperature'') (\<lambda>inside_temp.
     bind (dict_get_or_empty sensor_data ''humidity'') (\<lambda>humidity_data.
     bind (dict_get_or_empty room_data ''setting'') (\<lambda>setting.
     bind (dict_get_or_empty setting ''temperature'') (\<lambda>target_temp.
     bind (dict_get room_data ''manualControlTermination'') (\<lambda>manual_control.
     bind (manual_control_fields manual_control) (\<lambda>(manual_remaining, manual_type).
     bind (dict_get_or_empty room_data ''nextScheduleChange'') (\<lambda>next_change.
     bind (dict_get next_change ''start'') (\<lambda>next_change_time.
     bind (dict_get_or_empty next_change ''setting'') (\<lambda>next_change_setting.
     bind (dict_get_or_empty next_change_setting ''temperature'') (\<lambda>next_change_temp_obj.
     bind (dict_get next_change_temp_obj ''value'') (\<lambda>next_change_temp.
     bind (dict_get_or_empty room_data ''heatingPower'') (\<lambda>heating_power_data.
     bind (dict_get_or_empty room_data ''connection'') (\<lambda>connection_data.
     bind (dict_get_default room_data ''name'' (JStr (''Room '' @ py_str room_id))) (\<lambda>name_v.
     bind (dict_get inside_temp ''value'') (\<lambda>current_temperature_v.
     bind (dict_get target_temp ''value'') (\<lambda>target_temperature_v.
     bind (dict_get humidity_data ''percentage'') (\<lambda>humidity_v.
     bind (dict_get_default heating_power_data ''percentage'' (JNum 0)) (\<lambda>heating_power_v.
     bind (dict_get_default setting ''power'' (JStr ''OFF'')) (\<lambda>power_v.
     bind (dict_get_default connection_data ''state'' (JStr ''DISCONNECTED'')) (\<lambda>connection_state_v.
     bind (dict_get room_data ''boostMode'') (\<lambda>boost.
     bind (dict_get room_data ''openWindow'') (\<lambda>open_window.
     Inr (Some \<lparr>
       rm_room_id = room_id,
       name = name_v,
       current_temperature = current_temperature_v,
       target_temperature = target_temperature_v,
       humidity = humidity_v,
       heating_power = heating_power_v,
       rm_power = power_v,
       rm_connection_state = connection_state_v,
       manual_control_active = (manual_control \<noteq> JNull),
       manual_control_remaining_seconds = manual_remaining,
       manual_control_type = manual_type,
       boost_mode = (boost \<noteq> JNull),
       open_window_detected = (open_window \<noteq> JNull),
       next_schedule_change = next_change_time,
       next_schedule_temperature = next_change_temp,
       rm_devices = []
     \<rparr>)))))))))))))))))))))))))"

text \<open>
  What the properties below say about a payload: a key is absent when it is missing or
  \<open>null\<close>; an optional sub-object is absent or a JSON object (whose own optional
  sub-objects are again absent or objects).
\<close>

definition absent :: "json \<Rightarrow> string \<Rightarrow> bool" where
  "absent x k = (dict_get x k = Inr JNull)"

definition opt_object :: "json \<Rightarrow> string \<Rightarrow> (json \<Rightarrow> bool) \<Rightarrow> bool" where
  "opt_object x k P =
     (case dict_get x k of Inr JNull \<Rightarrow> True | Inr (JObj kvs) \<Rightarrow> P (JObj kvs) | _ \<Rightarrow> False)"

definition room_state_payload :: "json \<Rightarrow> bool" where
  "room_state_payload p =
     (opt_object p ''sensorDataPoints'' (\<lambda>s.
        opt_object s ''insideTemperature'' (\<lambda>_. True) \<and> opt_object s ''humidity'' (\<lambda>_. True)) \<and>
      opt_object p ''setting'' (\<lambda>s. opt_object s ''temperature'' (\<lambda>_. True)) \<and>
      opt_object p ''manualControlTermination'' (\<lambda>_. True) \<and>
      opt_object p ''nextScheduleChange'' (\<lambda>n.
        opt_object n ''setting'' (\<lambda>s. opt_object s ''temperature'' (\<lambda>_. True))) \<and>
      opt_object p ''heatingPower'' (\<lambda>_. True) \<and>
      opt_object p ''connection'' (\<lambda>_. True))"

section \<open>Devices, rooms and other devices\<close>

text \<open>
  Lines 259 to 272: the device of one entry of a room's device list, with the room's id
  and name.
\<close>

definition build_device :: "json \<Rightarrow> json \<Rightarrow> json \<Rightarrow> error + TadoXDevice" where
  "build_device device_data rid rname =
     bind (dict_get_or_empty device_data ''connection'') (\<lambda>device_connection.
     bind (dict_get_default device_data ''serialNumber'' (JStr [])) (\<lambda>serial.
     bind (dict_get_default device_data ''type'' (JStr [])) (\<lambda>type.
     bind (dict_get_default device_data ''firmwareVersion'' (JStr [])) (\<lambda>firmware.
     bind (dict_get_default device_connection ''state'' (JStr ''DISCONNECTED'')) (\<lambda>state.
     bind (dict_get device_data ''batteryState'') (\<lambda>battery.
     bind (dict_get device_data ''temperatureAsMeasured'') (\<lambda>measured.
     bind (dict_get_default device_data ''temperatureOffset'' (JNum 0)) (\<lambda>offset.
     bind (dict_get device_data ''mountingState'') (\<lambda>mounting.
     bind (dict_get_default device_data ''childLockEnabled'' (JBool False)) (\<lambda>child_lock.
     Inr \<lparr>
       serial_number = serial,
       device_type = type,
       firmware_version = firmware,
       connection_state = state,
       battery_state = battery,
       temperature_measured = measured,
       temperature_offset = offset,
       mounting_state = mounting,
       child_lock_enabled = child_lock,
       room_id = rid,
       room_name = rname
     \<rparr>))))))))))"

text \<open>
  Lines 258 to 274: the loop over the room's device payloads appends each device to the
  room and stores it in the flat index under its serial number.
\<close>

fun add_room_devices ::
  "json list \<Rightarrow> TadoXRoom \<Rightarrow> TadoXDevice pydict \<Rightarrow> error + TadoXRoom \<times> TadoXDevice pydict" where
  "add_room_devices [] room devs = Inr (room, devs)"
| "add_room_devices (device_data # rest) room devs =
     (case build_device device_data (rm_room_id room) (name room) of
        Inl e \<Rightarrow> Inl e
      | Inr device \<Rightarrow>
          (case pd_store devs (serial_number device) device of
             Inl e \<Rightarrow> Inl e
           | Inr devs' \<Rightarrow>
               add_room_devices rest (room\<lparr>rm_devices := rm_devices room @ [device]\<rparr>) devs'))"

text \<open>Lines 186 to 192: the device payloads of each room, keyed by room id.\<close>

fun build_room_devices_map :: "json list \<Rightarrow> json pydict \<Rightarrow> error + json pydict" where
  "build_room_devices_map [] m = Inr m"
| "build_room_devices_map (room_info # rest) m =
     (case dict_get room_info ''roomId'' of
        Inl e \<Rightarrow> Inl e
      | Inr rid \<Rightarrow>
          if truthy rid then
            (case dict_get_default room_info ''devices'' (JArr []) of
               Inl e \<Rightarrow> Inl e
             | Inr ds \<Rightarrow>
                 (case pd_store m rid ds of
                    Inl e \<Rightarrow> Inl e
                  | Inr m' \<Rightarrow> build_room_devices_map rest m'))
          else build_room_devices_map rest m)"

text \<open>Lines 195 to 276: the loop over the room-state payloads.\<close>

fun process_rooms ::
  "(json \<Rightarrow> string) \<Rightarrow> json pydict \<Rightarrow> json list \<Rightarrow> TadoXData \<Rightarrow> error + TadoXData" where
  "process_rooms py_str room_devices_map [] data = Inr data"
| "process_rooms py_str room_devices_map (room_data # rest) data =
     (case build_room py_str room_data of
        Inl e \<Rightarrow> Inl e
      | Inr None \<Rightarrow> process_rooms py_str room_devices_map rest data
      | Inr (Some room) \<Rightarrow>
          (case bind (pd_get room_devices_map (rm_room_id room) (JArr [])) py_iter of
             Inl e \<Rightarrow> Inl e
           | Inr device_payloads \<Rightarrow>
               (case add_room_devices device_payloads room (devices data) of
                  Inl e \<Rightarrow> Inl e
                | Inr (room', devs') \<Rightarrow>
                    (case pd_store (rooms data) (rm_room_id room) room' of
                       Inl e \<Rightarrow> Inl e
                     | Inr rooms' \<Rightarrow>
                         process_rooms py_str room_devices_map rest
                           (data\<lparr>rooms := rooms', devices := devs'\<rparr>)))))"

text \<open>
  Lines 280 to 286: the room with the most devices, as a pair of
  \<open>room_with_most_devices\<close> and \<open>max_device_count\<close>. The loop runs over the items of
  \<open>data.rooms\<close> in the dict's order and replaces the pair only on a strictly greater
  count.
\<close>

definition most_devices_step :: "json \<times> TadoXRoom \<Rightarrow> json \<times> nat \<Rightarrow> json \<times> nat" where
  "most_devices_step item best =
     (let device_count = length (rm_devices (snd item))
      in if device_count > snd best then (fst item, device_count) else best)"

definition find_room_with_most_devices :: "TadoXRoom pydict \<Rightarrow> json \<times> nat" where
  "find_room_with_most_devices rs = fold most_devices_step rs (JNull, 0)"

text \<open>\<open>x or []\<close>\<close>

definition or_empty_list :: "json \<Rightarrow> json" where
  "or_empty_list v = (if truthy v then v else JArr [])"

text \<open>\<open>k and k in d\<close>\<close>

definition truthy_member :: "'v pydict \<Rightarrow> json \<Rightarrow> error + bool" where
  "truthy_member d k = (if truthy k then pd_member d k else Inr False)"

text \<open>\<open>d[k].name\<close>\<close>

definition room_name_of :: "TadoXRoom pydict \<Rightarrow> json \<Rightarrow> error + json" where
  "room_name_of rs k =
     (if hashable k then (case pd_lookup rs k of None \<Rightarrow> Inl KeyError | Some room \<Rightarrow> Inr (name room))
      else Inl TypeError)"

text \<open>\<open>d[k].devices.append(device)\<close>\<close>

definition append_room_device ::
  "TadoXRoom pydict \<Rightarrow> json \<Rightarrow> TadoXDevice \<Rightarrow> error + TadoXRoom pydict" where
  "append_room_device rs k device =
     (if hashable k then
        (case pd_lookup rs k of
           None \<Rightarrow> Inl KeyError
         | Some room \<Rightarrow> Inr (pd_update rs k (room\<lparr>rm_devices := rm_devices room @ [device]\<rparr>)))
      else Inl TypeError)"

text \<open>
  Lines 289 to 308: the room id and room name of an other device. The payload's room id
  is used when it names a room; a \<open>TR04\<close> without such a room gets
  \<open>room_with_most_devices\<close> when that is set; otherwise the payload's room id stays and
  the room name is \<open>None\<close>.
\<close>

definition other_device_room ::
  "json \<Rightarrow> TadoXRoom pydict \<Rightarrow> json \<Rightarrow> error + json \<times> json" where
  "other_device_room room_with_most_devices rs device_data =
     bind (dict_get device_data ''roomId'') (\<lambda>other_room_id.
     bind (dict_get_default device_data ''type'' (JStr [])) (\<lambda>device_type.
     bind (truthy_member rs other_room_id) (\<lambda>named.
     if named then
       bind (room_name_of rs other_room_id) (\<lambda>other_room_name.
       Inr (other_room_id, other_room_name))
     else if device_type = JStr ''TR04'' \<and> truthy room_with_most_devices then
       bind (room_name_of rs room_with_most_devices) (\<lambda>other_room_name.
       Inr (room_with_most_devices, other_room_name))
     else Inr (other_room_id, JNull))))"

text \<open>Lines 289 to 317: the device of one other-device payload.\<close>

definition build_other_device ::
  "json \<Rightarrow> TadoXRoom pydict \<Rightarrow> json \<Rightarrow> error + TadoXDevice" where
  "build_other_device room_with_most_devices rs device_data =
     bind (dict_get_or_empty device_data ''connection'') (\<lambda>other_device_connection.
     bind (other_device_room room_with_most_devices rs device_data) (\<lambda>(other_room_id, other_room_name).
     bind (dict_get_default device_data ''serialNumber'' (JStr [])) (\<lambda>serial.
     bind (dict_get_default device_data ''type'' (JStr [])) (\<lambda>device_type.
     bind (dict_get_default device_data ''firmwareVersion'' (JStr [])) (\<lambda>firmware.
     bind (dict_get_default other_device_connection ''state'' (JStr ''DISCONNECTED'')) (\<lambda>state.
     Inr \<lparr>
       serial_number = serial,
       device_type = device_type,
       firmware_version = firmware,
       connection_state = state,
       battery_state = JNull,
       temperature_measured = JNull,
       temperature_offset = JNum 0,
       mounting_state = JNull,
       child_lock_enabled = JBool False,
       room_id = other_room_id,
       room_name = other_room_name
     \<rparr>))))))"

text \<open>
  Lines 288 to 324: one pass of the loop over the other devices, and the loop.
  \<open>room_with_most_devices\<close> was computed before the loop and is not recomputed.
\<close>

definition process_other_device :: "json \<Rightarrow> json \<Rightarrow> TadoXData \<Rightarrow> error + TadoXData" where
  "process_other_device room_with_most_devices device_data data =
     bind (build_other_device room_with_most_devices (rooms data) device_data) (\<lambda>device.
     bind (truthy_member (rooms data) (room_id device)) (\<lambda>has_room.
     bind (if has_room then append_room_device (rooms data) (room_id device) device
           else Inr (rooms data)) (\<lambda>rooms'.
     bind (pd_store (devices data) (serial_number device) device) (\<lambda>devs'.
     Inr (data\<lparr>rooms := rooms',
               other_devices := other_devices data @ [device],
               devices := devs'\<rparr>)))))"

fun process_other_devices :: "json \<Rightarrow> json list \<Rightarrow> TadoXData \<Rightarrow> error + TadoXData" where
  "process_other_devices room_with_most_devices [] data = Inr data"
| "process_other_devices room_with_most_devices (device_data # rest) data =
     (case process_other_device room_with_most_devices device_data data of
        Inl e \<Rightarrow> Inl e
      | Inr data' \<Rightarrow> process_other_devices room_with_most_devices rest data')"

text \<open>
  Lines 179 to 324 of \<open>_async_update_data\<close>: the snapshot built from the presence, the
  room-state payloads (a list, as \<open>get_rooms\<close> returns) and the rooms-with-devices
  payload (a dict, as \<open>get_rooms_and_devices\<close> returns).
\<close>

definition build_snapshot ::
  "(json \<Rightarrow> string) \<Rightarrow> int \<Rightarrow> string \<Rightarrow> json \<Rightarrow> json list \<Rightarrow> json \<Rightarrow> error + TadoXData" where
  "build_snapshot py_str hid hname presence_v rooms_data rooms_devices_data =
     bind (dict_get_default rooms_devices_data ''rooms'' (JArr [])) (\<lambda>rooms_info.
     bind (py_iter rooms_info) (\<lambda>room_infos.
     bind (build_room_devices_map room_infos []) (\<lambda>room_devices_map.
     bind (process_rooms py_str room_devices_map rooms_data
             \<lparr>home_id = hid, home_name = hname, presence = presence_v,
              rooms = [], devices = [], other_devices = []\<rparr>) (\<lambda>data.
     bind (dict_get rooms_devices_data ''otherDevices'') (\<lambda>others.
     bind (py_iter (or_empty_list others)) (\<lambda>other_payloads.
     process_other_devices (fst (find_room_with_most_devices (rooms data))) other_payloads data))))))"

section \<open>The API client of api.py\<close>

subsection \<open>Time, requests and the environment\<close>

text \<open>
  A \<open>datetime\<close> is naive (local wall-clock seconds) or aware (seconds in UTC); comparing
  or subtracting the two kinds is not done here, since \<open>ensure_valid_token\<close> picks the
  clock that matches the stored expiry. Times are real numbers of seconds, without the
  bounds of Python's \<open>datetime\<close> and \<open>timedelta\<close>: an \<open>expires_in\<close> so large that
  \<open>timedelta(seconds=expires_in)\<close> or the sum raises OverflowError is not modelled, and
  neither is a NaN or an infinity.
\<close>

datatype datetime = Naive real | Aware real

text \<open>
  One call of the aiohttp session: the HTTP verb, the URL, the token of the
  \<open>Authorization: Bearer\<close> header when there is one, and the form or JSON body. The
  answer is a response or an exception. Of a response the client reads the status, the
  content length, the text and the parsed JSON body (which can fail).
\<close>

datatype payload = NoBody | JsonBody json | FormBody "(string \<times> json) list"

record http_request =
  verb :: string
  url :: string
  bearer :: "json option"
  body :: payload

record http_response =
  status :: int
  content_length :: "int option"
  body_text :: string
  json_body :: "error + json"

datatype outcome = Response http_response | Raised error

text \<open>
  What the program did so far: the requests sent, the sleeps and the clock readings,
  oldest first. \<open>SyncInvoked\<close> records an entry into
  \<open>_auto_sync_temperature_offsets\<close>, so that its invocations can be counted.
\<close>

datatype event = Sent http_request | Slept int | ClockRead | SyncInvoked

text \<open>
  The state of the client: the attributes of \<open>TadoXApi\<close> (without the leading
  underscore, which an Isabelle name cannot have) and the events so far. A call returns
  its result or exception together with the state it leaves behind, since an attribute
  assigned before an exception stays assigned.
\<close>

record TadoXApi =
  access_token :: json
  refresh_token :: json
  token_expiry :: "datetime option"
  api_home_id :: "int option"
  events :: "event list"

text \<open>
  The surroundings of the program. The session and the two clocks answer depending on
  what happened so far. \<open>const.py\<close> is not part of the sources, so its constants are
  fields here, as are the registries and states of Home Assistant that the offset sync
  reads, and three builtins of Python: \<open>str\<close> on values, \<open>str\<close> on builtin exceptions
  and \<open>float\<close> on strings (\<open>None\<close> for its ValueError).

  \<open>event_loop\<close> is the scheduling of the asyncio event loop: given what happened so far
  and the positions of the tasks that have not returned yet, the position of the task
  that runs next.
\<close>

record registry_entry =
  device_id :: "string option"

record device_entry =
  entry_id :: string
  identifiers :: "(string \<times> string) list"

record env =
  session :: "event list \<Rightarrow> http_request \<Rightarrow> outcome"
  utcnow :: "event list \<Rightarrow> real"
  localnow :: "event list \<Rightarrow> real"
  TADO_TOKEN_URL :: string
  TADO_CLIENT_ID :: string
  TADO_HOPS_API_URL :: string
  TADO_MY_API_URL :: string
  DOMAIN :: string
  value_str :: "json \<Rightarrow> string"
  builtin_str :: "error \<Rightarrow> string"
  py_float :: "string \<Rightarrow> real option"
  entity_registry :: "string \<Rightarrow> registry_entry option"
  device_registry :: "string \<Rightarrow> device_entry option"
  states :: "string \<Rightarrow> string option"
  event_loop :: "event list \<Rightarrow> nat list \<Rightarrow> nat"

type_synonym 'a io = "TadoXApi \<Rightarrow> (error + 'a) \<times> TadoXApi"

definition io_bind :: "'a io \<Rightarrow> ('a \<Rightarrow> 'b io) \<Rightarrow> 'b io" where
  "io_bind m f st = (case m st of (Inl e, st') \<Rightarrow> (Inl e, st') | (Inr x, st') \<Rightarrow> f x st')"

definition io_return :: "'a \<Rightarrow> 'a io" where
  "io_return x st = (Inr x, st)"

definition io_raise :: "error \<Rightarrow> 'a io" where
  "io_raise e st = (Inl e, st)"

text \<open>A value or exception computed without effect.\<close>

definition io_lift :: "error + 'a \<Rightarrow> 'a io" where
  "io_lift r st = (r, st)"

definition send :: "env \<Rightarrow> http_request \<Rightarrow> http_response io" where
  "send e req st =
     ((case session e (events st) req of Response r \<Rightarrow> Inr r | Raised err \<Rightarrow> Inl err),
      st\<lparr>events := events st @ [Sent req]\<rparr>)"

definition read_utc :: "env \<Rightarrow> real io" where
  "read_utc e st = (Inr (utcnow e (events st)), st\<lparr>events := events st @ [ClockRead]\<rparr>)"

definition read_local :: "env \<Rightarrow> real io" where
  "read_local e st = (Inr (localnow e (events st)), st\<lparr>events := events st @ [ClockRead]\<rparr>)"

definition sleep :: "int \<Rightarrow> unit io" where
  "sleep interval st = (Inr (), st\<lparr>events := events st @ [Slept interval]\<rparr>)"

text \<open>Python's \<open>str\<close> of an int, and of an exception.\<close>

definition digit_char :: "nat \<Rightarrow> char" where
  "digit_char n = ''0123456789'' ! n"

fun str_nat :: "nat \<Rightarrow> string" where
  "str_nat n =
     (if n < 10 then [digit_char n] else str_nat (n div 10) @ [digit_char (n mod 10)])"

declare str_nat.simps [simp del]

definition str_int :: "int \<Rightarrow> string" where
  "str_int i = (if i < 0 then CHR ''-'' # str_nat (nat (- i)) else str_nat (nat i))"

fun err_str :: "env \<Rightarrow> error \<Rightarrow> string" where
  "err_str e (TadoXAuthError m) = m"
| "err_str e (TadoXApiError m) = m"
| "err_str e (ClientError m) = m"
| "err_str e (UpdateFailed p cause) = p @ '': '' @ err_str e cause"
| "err_str e other = builtin_str e other"

text \<open>
  A number where Python needs one (\<open>True\<close> is 1 there); anything else raises TypeError.
\<close>

fun py_num :: "json \<Rightarrow> error + real" where
  "py_num (JNum x) = Inr x"
| "py_num (JBool b) = Inr (if b then 1 else 0)"
| "py_num _ = Inl TypeError"

text \<open>\<open>data[k]\<close> for a string \<open>k\<close>\<close>

fun subscript :: "json \<Rightarrow> string \<Rightarrow> error + json" where
  "subscript (JObj kvs) k = (case map_of kvs k of None \<Rightarrow> Inl KeyError | Some v \<Rightarrow> Inr v)"
| "subscript _ k = Inl TypeError"

subsection \<open>Tokens\<close>

text \<open>
  \<open>refresh_access_token\<close>. The \<open>except aiohttp.ClientError\<close> turns a ClientError of the
  request or of the body's parsing into a TadoXAuthError; other exceptions pass.
\<close>

definition refresh_request :: "env \<Rightarrow> json \<Rightarrow> http_request" where
  "refresh_request e token =
     \<lparr>verb = ''POST'', url = TADO_TOKEN_URL e, bearer = None,
      body = FormBody [(''client_id'', JStr (TADO_CLIENT_ID e)),
                       (''grant_type'', JStr ''refresh_token''),
                       (''refresh_token'', token)]\<rparr>"

definition refresh_except :: "'a io \<Rightarrow> 'a io" where
  "refresh_except m st =
     (case m st of
        (Inl (ClientError err), st') \<Rightarrow>
          (Inl (TadoXAuthError (''Network error during token refresh: '' @ err)), st')
      | r \<Rightarrow> r)"

definition store_refreshed :: "env \<Rightarrow> json \<Rightarrow> bool io" where
  "store_refreshed e data =
     io_bind (io_lift (subscript data ''access_token'')) (\<lambda>token.
     io_bind (\<lambda>st. (Inr (), st\<lparr>access_token := token\<rparr>)) (\<lambda>_.
     io_bind (\<lambda>st. (dict_get_default data ''refresh_token'' (refresh_token st), st)) (\<lambda>new_refresh.
     io_bind (\<lambda>st. (Inr (), st\<lparr>refresh_token := new_refresh\<rparr>)) (\<lambda>_.
     io_bind (io_lift (dict_get_default data ''expires_in'' (JNum 600))) (\<lambda>expires_in.
     io_bind (read_utc e) (\<lambda>now.
     io_bind (io_lift (py_num expires_in)) (\<lambda>seconds.
     io_bind (\<lambda>st. (Inr (), st\<lparr>token_expiry := Some (Aware (now + seconds))\<rparr>)) (\<lambda>_.
     io_return True))))))))"

definition refresh_access_token :: "env \<Rightarrow> bool io" where
  "refresh_access_token e st =
     (if \<not> truthy (refresh_token st) then
        (Inl (TadoXAuthError ''No refresh token available''), st)
      else
        refresh_except
          (io_bind (send e (refresh_request e (refresh_token st))) (\<lambda>response.
           if status response \<noteq> 200 then
             io_raise (TadoXAuthError (''Failed to refresh token: '' @ str_int (status response)))
           else
             io_bind (io_lift (json_body response)) (store_refreshed e))) st)"

text \<open>
  \<open>ensure_valid_token\<close>. A \<open>datetime\<close> is always true as a condition, so only a missing
  expiry skips the check. The UTC clock is read first; for a naive expiry the local
  clock is read as well and used.
\<close>

definition ensure_valid_token :: "env \<Rightarrow> unit io" where
  "ensure_valid_token e st =
     (if \<not> truthy (access_token st) then (Inl (TadoXAuthError ''Not authenticated''), st)
      else
        (case token_expiry st of
           None \<Rightarrow> (Inr (), st)
         | Some (Aware expiry) \<Rightarrow>
             io_bind (read_utc e) (\<lambda>now.
               if now \<ge> expiry - 60 then io_bind (refresh_access_token e) (\<lambda>_. io_return ())
               else io_return ()) st
         | Some (Naive expiry) \<Rightarrow>
             io_bind (read_utc e) (\<lambda>_.
             io_bind (read_local e) (\<lambda>now.
               if now \<ge> expiry - 60 then io_bind (refresh_access_token e) (\<lambda>_. io_return ())
               else io_return ())) st))"

text \<open>
  \<open>poll_for_token\<close>. \<open>timedelta.seconds\<close> is the seconds part of the normalised
  difference, between 0 and 86399. One pass of the loop either ends the call or goes on;
  the loop has a bound on its passes here, and running out of it is \<open>None\<close>.
\<close>

definition timedelta_seconds :: "real \<Rightarrow> int" where
  "timedelta_seconds delta = \<lfloor>delta\<rfloor> mod 86400"

definition device_code_request :: "env \<Rightarrow> string \<Rightarrow> http_request" where
  "device_code_request e device_code =
     \<lparr>verb = ''POST'', url = TADO_TOKEN_URL e, bearer = None,
      body = FormBody [(''client_id'', JStr (TADO_CLIENT_ID e)),
                       (''device_code'', JStr device_code),
                       (''grant_type'', JStr ''urn:ietf:params:oauth:grant-type:device_code'')]\<rparr>"

definition store_polled :: "env \<Rightarrow> json \<Rightarrow> bool io" where
  "store_polled e data =
     io_bind (io_lift (subscript data ''access_token'')) (\<lambda>token.
     io_bind (\<lambda>st. (Inr (), st\<lparr>access_token := token\<rparr>)) (\<lambda>_.
     io_bind (io_lift (dict_get data ''refresh_token'')) (\<lambda>new_refresh.
     io_bind (\<lambda>st. (Inr (), st\<lparr>refresh_token := new_refresh\<rparr>)) (\<lambda>_.
     io_bind (io_lift (dict_get_default data ''expires_in'' (JNum 600))) (\<lambda>expires_in.
     io_bind (read_local e) (\<lambda>now.
     io_bind (io_lift (py_num expires_in)) (\<lambda>seconds.
     io_bind (\<lambda>st. (Inr (), st\<lparr>token_expiry := Some (Naive (now + seconds))\<rparr>)) (\<lambda>_.
     io_return True))))))))"

text \<open>
  The body of the \<open>try\<close> of one pass: \<open>Some b\<close> is \<open>return b\<close>, \<open>None\<close> is \<open>continue\<close>.
\<close>

definition poll_attempt :: "env \<Rightarrow> string \<Rightarrow> int \<Rightarrow> bool option io" where
  "poll_attempt e device_code interval =
     io_bind (send e (device_code_request e device_code)) (\<lambda>response.
     io_bind (io_lift (json_body response)) (\<lambda>data.
     if status response = 200 then
       io_bind (store_polled e data) (\<lambda>b. io_return (Some b))
     else
       io_bind (io_lift (dict_get data ''error'')) (\<lambda>err.
       if err = JStr ''authorization_pending'' then
         io_bind (sleep interval) (\<lambda>_. io_return None)
       else
         io_bind (io_lift (dict_get_default data ''error_description'' err)) (\<lambda>description.
         io_raise (TadoXAuthError (''Token error: '' @ value_str e description))))))"

definition poll_pass :: "env \<Rightarrow> string \<Rightarrow> int \<Rightarrow> bool option io" where
  "poll_pass e device_code interval st =
     (case poll_attempt e device_code interval st of
        (Inl (ClientError err), st') \<Rightarrow> io_bind (sleep interval) (\<lambda>_. io_return None) st'
      | r \<Rightarrow> r)"

fun poll_loop ::
  "nat \<Rightarrow> env \<Rightarrow> string \<Rightarrow> int \<Rightarrow> int \<Rightarrow> real \<Rightarrow> TadoXApi \<Rightarrow> ((error + bool) \<times> TadoXApi) option" where
  "poll_loop 0 e device_code interval timeout start_time st = None"
| "poll_loop (Suc fuel) e device_code interval timeout start_time st =
     (case read_local e st of
        (Inl err, st1) \<Rightarrow> Some (Inl err, st1)
      | (Inr now, st1) \<Rightarrow>
          if timedelta_seconds (now - start_time) < timeout then
            (case poll_pass e device_code interval st1 of
               (Inl err, st2) \<Rightarrow> Some (Inl err, st2)
             | (Inr (Some b), st2) \<Rightarrow> Some (Inr b, st2)
             | (Inr None, st2) \<Rightarrow>
                 poll_loop fuel e device_code interval timeout start_time st2)
          else Some (Inr False, st1))"

definition poll_for_token ::
  "nat \<Rightarrow> env \<Rightarrow> string \<Rightarrow> int \<Rightarrow> int \<Rightarrow> TadoXApi \<Rightarrow> ((error + bool) \<times> TadoXApi) option" where
  "poll_for_token fuel e device_code interval timeout st =
     (case read_local e st of
        (Inl err, st0) \<Rightarrow> Some (Inl err, st0)
      | (Inr start_time, st0) \<Rightarrow> poll_loop fuel e device_code interval timeout start_time st0)"

subsection \<open>Requests\<close>

text \<open>
  \<open>_request\<close>. The \<open>except aiohttp.ClientError\<close> around both requests turns a
  ClientError into a TadoXApiError; the exceptions raised inside (TadoXApiError, and
  TadoXAuthError from the refresh) pass. \<open>None\<close> is \<open>JNull\<close>.
\<close>

definition api_request :: "string \<Rightarrow> string \<Rightarrow> json option \<Rightarrow> json \<Rightarrow> http_request" where
  "api_request meth u json_data token =
     \<lparr>verb = meth, url = u, bearer = Some token,
      body = (case json_data of None \<Rightarrow> NoBody | Some j \<Rightarrow> JsonBody j)\<rparr>"

definition request_except :: "'a io \<Rightarrow> 'a io" where
  "request_except m st =
     (case m st of
        (Inl (ClientError err), st') \<Rightarrow> (Inl (TadoXApiError (''Network error: '' @ err)), st')
      | r \<Rightarrow> r)"

definition api_error :: "http_response \<Rightarrow> error" where
  "api_error response =
     TadoXApiError (''API error: '' @ str_int (status response) @ '' - '' @ body_text response)"

definition retry_result :: "http_response \<Rightarrow> json io" where
  "retry_result retry_response =
     (if status retry_response \<noteq> 200 then io_raise (api_error retry_response)
      else if content_length retry_response = Some 0 then io_return JNull
      else io_lift (json_body retry_response))"

definition first_result :: "http_response \<Rightarrow> json io" where
  "first_result response =
     (if status response \<noteq> 200 \<and> status response \<noteq> 204 then io_raise (api_error response)
      else if content_length response = Some 0 \<or> status response = 204 then io_return JNull
      else io_lift (json_body response))"

definition request :: "env \<Rightarrow> string \<Rightarrow> string \<Rightarrow> json option \<Rightarrow> json io" where
  "request e meth u json_data =
     io_bind (ensure_valid_token e) (\<lambda>_.
     request_except
       (io_bind (\<lambda>st. send e (api_request meth u json_data (access_token st)) st) (\<lambda>response.
        if status response = 401 then
          io_bind (refresh_access_token e) (\<lambda>_.
          io_bind (\<lambda>st. send e (api_request meth u json_data (access_token st)) st) retry_result)
        else first_result response)))"

text \<open>
  The wrappers used below. \<open>not self._home_id\<close> holds for \<open>None\<close> and for 0. A result of
  the wrong kind is replaced by an empty dict or list.
\<close>

definition home_id_unset :: "TadoXApi \<Rightarrow> bool" where
  "home_id_unset st = (case api_home_id st of None \<Rightarrow> True | Some h \<Rightarrow> h = 0)"

definition home_str :: "TadoXApi \<Rightarrow> string" where
  "home_str st = (case api_home_id st of None \<Rightarrow> ''None'' | Some h \<Rightarrow> str_int h)"

definition with_home :: "(string \<Rightarrow> 'a io) \<Rightarrow> 'a io" where
  "with_home f st =
     (if home_id_unset st then (Inl (TadoXApiError ''Home ID not set''), st)
      else f (home_str st) st)"

fun dict_or_empty :: "json \<Rightarrow> json" where
  "dict_or_empty (JObj kvs) = JObj kvs"
| "dict_or_empty _ = JObj []"

fun list_or_empty :: "json \<Rightarrow> json list" where
  "list_or_empty (JArr xs) = xs"
| "list_or_empty _ = []"

definition get_home_state :: "env \<Rightarrow> json io" where
  "get_home_state e =
     with_home (\<lambda>h.
       io_bind (request e ''GET'' (TADO_MY_API_URL e @ ''/homes/'' @ h @ ''/state'') None)
         (\<lambda>result. io_return (dict_or_empty result)))"

definition get_mobile_devices :: "env \<Rightarrow> json list io" where
  "get_mobile_devices e =
     with_home (\<lambda>h.
       io_bind (request e ''GET'' (TADO_MY_API_URL e @ ''/homes/'' @ h @ ''/mobileDevices'') None)
         (\<lambda>result. io_return (list_or_empty result)))"

definition set_presence :: "env \<Rightarrow> string \<Rightarrow> unit io" where
  "set_presence e p =
     with_home (\<lambda>h.
       io_bind (request e ''PUT'' (TADO_MY_API_URL e @ ''/homes/'' @ h @ ''/presence'')
                  (Some (JObj [(''presence'', JStr p)])))
         (\<lambda>_. io_return ()))"

definition get_rooms :: "env \<Rightarrow> json list io" where
  "get_rooms e =
     with_home (\<lambda>h.
       io_bind (request e ''GET'' (TADO_HOPS_API_URL e @ ''/homes/'' @ h @ ''/rooms'') None)
         (\<lambda>result. io_return (list_or_empty result)))"

definition get_rooms_and_devices :: "env \<Rightarrow> json io" where
  "get_rooms_and_devices e =
     with_home (\<lambda>h.
       io_bind (request e ''GET'' (TADO_HOPS_API_URL e @ ''/homes/'' @ h @ ''/roomsAndDevices'') None)
         (\<lambda>result. io_return (dict_or_empty result)))"

subsection \<open>Offsets of several devices\<close>

text \<open>
  \<open>set_multiple_device_temperature_offsets\<close> runs one task for each item of the dict, and
  \<open>asyncio.gather\<close> runs the tasks concurrently on the one client: a task runs until it
  awaits, and then the event loop lets any task go on that has not returned. So the
  write of a task, \<open>_request\<close>, is taken apart here at its awaits. A \<open>stage\<close> is where a
  task stands between two runs:

    \<^item> \<open>Starting\<close>: not run yet;
    \<^item> \<open>TokenRequested\<close>: in the refresh of \<open>ensure_valid_token\<close>, awaiting the answer of
      the token endpoint;
    \<^item> \<open>TokenStored\<close>: that refresh has stored the tokens and leaves its \<open>async with\<close>;
    \<^item> \<open>FirstSent\<close>: awaiting the answer to the request;
    \<^item> \<open>RetryTokenRequested\<close>, \<open>RetryTokenStored\<close>: the same two stages of the refresh
      after a 401;
    \<^item> \<open>RetrySent\<close>: awaiting the answer to the retry;
    \<^item> \<open>Returned\<close>: \<open>_request\<close> has returned or raised.

  The answer to a request is the one the session has for it when it is sent, as in
  \<open>send\<close>; the task gets it when it runs again. Reading the text or the JSON body of a
  response is an await too, but between the arrival of a response and that of its body
  the task touches nothing of the client, so the two are one stage.
\<close>

datatype stage =
    Starting
  | TokenRequested "error + http_response"
  | TokenStored
  | FirstSent "error + http_response"
  | RetryTokenRequested "error + http_response"
  | RetryTokenStored
  | RetrySent "error + http_response"
  | Returned "error + json"

text \<open>
  The condition of \<open>ensure_valid_token\<close> for a refresh, with its exception and its clock
  readings; and the part of \<open>refresh_access_token\<close> after the answer of the token endpoint.
\<close>

definition token_due :: "env \<Rightarrow> bool io" where
  "token_due e st =
     (if \<not> truthy (access_token st) then (Inl (TadoXAuthError ''Not authenticated''), st)
      else
        (case token_expiry st of
           None \<Rightarrow> (Inr False, st)
         | Some (Aware expiry) \<Rightarrow>
             io_bind (read_utc e) (\<lambda>now. io_return (now \<ge> expiry - 60)) st
         | Some (Naive expiry) \<Rightarrow>
             io_bind (read_utc e) (\<lambda>_.
             io_bind (read_local e) (\<lambda>now. io_return (now \<ge> expiry - 60))) st))"

definition token_received :: "env \<Rightarrow> error + http_response \<Rightarrow> bool io" where
  "token_received e sent =
     refresh_except
       (io_bind (io_lift sent) (\<lambda>response.
          if status response \<noteq> 200 then
            io_raise (TadoXAuthError (''Failed to refresh token: '' @ str_int (status response)))
          else
            io_bind (io_lift (json_body response)) (store_refreshed e)))"

text \<open>
  The steps of a task: the start of a refresh up to its await, the end of a refresh, and
  the sending of the request with the access token held at that moment. \<open>network_error\<close>
  is the \<open>except aiohttp.ClientError\<close> of \<open>_request\<close>, and \<open>in_try\<close> applies it to a step
  inside the \<open>try\<close>.
\<close>

definition request_token ::
  "env \<Rightarrow> (error + http_response \<Rightarrow> stage) \<Rightarrow> TadoXApi \<Rightarrow> stage \<times> TadoXApi" where
  "request_token e awaiting st =
     (if \<not> truthy (refresh_token st) then
        (Returned (Inl (TadoXAuthError ''No refresh token available'')), st)
      else
        (case send e (refresh_request e (refresh_token st)) st of
           (sent, st') \<Rightarrow> (awaiting sent, st')))"

definition store_token ::
  "env \<Rightarrow> error + http_response \<Rightarrow> stage \<Rightarrow> TadoXApi \<Rightarrow> stage \<times> TadoXApi" where
  "store_token e sent stored st =
     (case token_received e sent st of
        (Inl err, st') \<Rightarrow> (Returned (Inl err), st')
      | (Inr _, st') \<Rightarrow> (stored, st'))"

definition send_request ::
  "env \<Rightarrow> string \<Rightarrow> string \<Rightarrow> json option \<Rightarrow> (error + http_response \<Rightarrow> stage) \<Rightarrow>
   TadoXApi \<Rightarrow> stage \<times> TadoXApi" where
  "send_request e meth u json_data awaiting st =
     (case send e (api_request meth u json_data (access_token st)) st of
        (sent, st') \<Rightarrow> (awaiting sent, st'))"

fun network_error :: "error \<Rightarrow> error" where
  "network_error (ClientError err) = TadoXApiError (''Network error: '' @ err)"
| "network_error err = err"

fun in_try :: "stage \<times> TadoXApi \<Rightarrow> stage \<times> TadoXApi" where
  "in_try (Returned (Inl err), st) = (Returned (Inl (network_error err)), st)"
| "in_try (stage, st) = (stage, st)"

definition returning :: "json io \<Rightarrow> TadoXApi \<Rightarrow> stage \<times> TadoXApi" where
  "returning m st = (case m st of (r, st') \<Rightarrow> (Returned r, st'))"

text \<open>One run of a task of \<open>_request\<close>, from the stage where it stands to its next stage.\<close>

fun resume ::
  "env \<Rightarrow> string \<Rightarrow> string \<Rightarrow> json option \<Rightarrow> stage \<Rightarrow> TadoXApi \<Rightarrow> stage \<times> TadoXApi" where
  "resume e meth u json_data Starting st =
     (case token_due e st of
        (Inl err, st') \<Rightarrow> (Returned (Inl err), st')
      | (Inr due, st') \<Rightarrow>
          if due then request_token e TokenRequested st'
          else send_request e meth u json_data FirstSent st')"
| "resume e meth u json_data (TokenRequested sent) st = store_token e sent TokenStored st"
| "resume e meth u json_data TokenStored st = send_request e meth u json_data FirstSent st"
| "resume e meth u json_data (FirstSent sent) st =
     (case sent of
        Inl err \<Rightarrow> (Returned (Inl (network_error err)), st)
      | Inr response \<Rightarrow>
          if status response = 401 then in_try (request_token e RetryTokenRequested st)
          else in_try (returning (first_result response) st))"
| "resume e meth u json_data (RetryTokenRequested sent) st =
     in_try (store_token e sent RetryTokenStored st)"
| "resume e meth u json_data RetryTokenStored st = send_request e meth u json_data RetrySent st"
| "resume e meth u json_data (RetrySent sent) st =
     (case sent of
        Inl err \<Rightarrow> (Returned (Inl (network_error err)), st)
      | Inr response \<Rightarrow> in_try (returning (retry_result response) st))"
| "resume e meth u json_data (Returned r) st = (Returned r, st)"

text \<open>
  The write of one device, as \<open>set_single_offset\<close> awaits it; and \<open>set_single_offset\<close>
  itself, which catches every exception of the write, so that a task always returns its
  pair of serial and status. (The cancellation of a task is not modelled.)
\<close>

definition offset_url :: "env \<Rightarrow> string \<Rightarrow> string \<Rightarrow> string" where
  "offset_url e h serial =
     TADO_HOPS_API_URL e @ ''/homes/'' @ h @ ''/roomsAndDevices/devices/'' @ serial"

definition offset_body :: "real \<Rightarrow> json option" where
  "offset_body offset = Some (JObj [(''temperatureOffset'', JNum offset)])"

definition offset_write :: "env \<Rightarrow> string \<Rightarrow> string \<Rightarrow> real \<Rightarrow> json io" where
  "offset_write e h serial offset =
     request e ''PATCH'' (offset_url e h serial) (offset_body offset)"

definition set_single_offset :: "env \<Rightarrow> string \<Rightarrow> error + json \<Rightarrow> string \<times> string" where
  "set_single_offset e serial written =
     (case written of
        Inr _ \<Rightarrow> (serial, ''success'')
      | Inl err \<Rightarrow> (serial, ''error: '' @ err_str e err))"

text \<open>
  \<open>asyncio.gather\<close> on the tasks of the items \<open>offsets\<close>, whose stages are \<open>stages\<close>. As
  long as a task has not returned, the event loop picks one of these tasks (the first of
  them, should \<open>event_loop\<close> name none of them) and that task runs up to its next
  stage. Any task that has not returned can be picked, also one that could go on at
  once; so the runs of the event loop of asyncio are among the runs described here.
  \<open>remaining\<close> bounds the number of runs a task still needs.
\<close>

fun remaining :: "stage \<Rightarrow> nat" where
  "remaining Starting = 7"
| "remaining (TokenRequested sent) = 6"
| "remaining TokenStored = 5"
| "remaining (FirstSent sent) = 4"
| "remaining (RetryTokenRequested sent) = 3"
| "remaining RetryTokenStored = 2"
| "remaining (RetrySent sent) = 1"
| "remaining (Returned r) = 0"

definition unfinished :: "stage list \<Rightarrow> nat list" where
  "unfinished stages = filter (\<lambda>i. remaining (stages ! i) \<noteq> 0) [0..<length stages]"

definition next_task :: "env \<Rightarrow> TadoXApi \<Rightarrow> nat list \<Rightarrow> nat" where
  "next_task e st waiting =
     (if event_loop e (events st) waiting \<in> set waiting then event_loop e (events st) waiting
      else hd waiting)"

definition run_task ::
  "env \<Rightarrow> string \<Rightarrow> (string \<times> real) list \<Rightarrow> stage list \<Rightarrow> TadoXApi \<Rightarrow> nat \<Rightarrow>
   stage list \<times> TadoXApi" where
  "run_task e h offsets stages st i =
     (case resume e ''PATCH'' (offset_url e h (fst (offsets ! i))) (offset_body (snd (offsets ! i)))
             (stages ! i) st of
        (stage', st') \<Rightarrow> (stages[i := stage'], st'))"

function gather ::
  "env \<Rightarrow> string \<Rightarrow> (string \<times> real) list \<Rightarrow> stage list \<Rightarrow> TadoXApi \<Rightarrow> stage list \<times> TadoXApi" where
  "gather e h offsets stages st =
     (if unfinished stages = [] then (stages, st)
      else
        gather e h offsets
          (fst (run_task e h offsets stages st (next_task e st (unfinished stages))))
          (snd (run_task e h offsets stages st (next_task e st (unfinished stages)))))"
  by pat_completeness auto

termination gather
proof (relation "measure (\<lambda>(e, h, offsets, stages, st). sum_list (map remaining stages))")
  show "wf (measure (\<lambda>(e, h, offsets, stages, st). sum_list (map remaining stages)))"
    by simp
next
  fix e :: env and h :: string and offsets :: "(string \<times> real) list"
    and stages :: "stage list" and st :: TadoXApi
  assume waiting: "unfinished stages \<noteq> []"
  define i where "i = next_task e st (unfinished stages)"
  define u where "u = offset_url e h (fst (offsets ! i))"
  define b where "b = offset_body (snd (offsets ! i))"
  from waiting have "i \<in> set (unfinished stages)"
    unfolding i_def next_task_def by simp
  then have i: "i < length stages" and busy: "remaining (stages ! i) \<noteq> 0"
    unfolding unfinished_def by simp_all
  have keep: "remaining (fst (in_try p)) = remaining (fst p)" for p
    by (cases p rule: in_try.cases) simp_all
  have less: "remaining (fst (resume e ''PATCH'' u b (stages ! i) st)) < remaining (stages ! i)"
    using busy
    by (cases "stages ! i")
      (auto simp: keep request_token_def store_token_def send_request_def returning_def
        split: prod.splits sum.splits if_splits)
  have le: "remaining (stages ! i) \<le> sum_list (map remaining stages)"
    using i member_le_sum_list [of "remaining (stages ! i)" "map remaining stages"] by simp
  have "sum_list (map remaining (stages[i := fst (resume e ''PATCH'' u b (stages ! i) st)]))
      = sum_list (map remaining stages) + remaining (fst (resume e ''PATCH'' u b (stages ! i) st))
        - remaining (stages ! i)"
    using i by (simp add: map_update sum_list_update)
  also have "\<dots> < sum_list (map remaining stages)"
    using less le by simp
  finally show "((e, h, offsets,
        fst (run_task e h offsets stages st (next_task e st (unfinished stages))),
        snd (run_task e h offsets stages st (next_task e st (unfinished stages)))),
       (e, h, offsets, stages, st))
     \<in> measure (\<lambda>(e, h, offsets, stages, st). sum_list (map remaining stages))"
    unfolding run_task_def i_def [symmetric] u_def [symmetric] b_def [symmetric]
    by (simp add: split_beta)
qed

declare gather.simps [simp del]

text \<open>
  The outcomes of the writes of the tasks that have returned, in the order of the tasks;
  after \<open>gather\<close> these are all tasks. The pairs of the tasks are entered into the result
  dict in this order; no task raises, so the branch for an exception among the results
  of \<open>gather\<close> is never taken.
\<close>

fun written :: "stage list \<Rightarrow> (error + json) list" where
  "written [] = []"
| "written (Returned r # stages) = r # written stages"
| "written (stage # stages) = written stages"

definition build_results :: "(string \<times> string) list \<Rightarrow> (string \<times> string) list" where
  "build_results task_results = fold (\<lambda>(serial, status). AList.update serial status) task_results []"

definition set_multiple_device_temperature_offsets ::
  "env \<Rightarrow> (string \<times> real) list \<Rightarrow> (string \<times> string) list io" where
  "set_multiple_device_temperature_offsets e offsets =
     with_home (\<lambda>h st.
       (case gather e h offsets (replicate (length offsets) Starting) st of
          (stages, st') \<Rightarrow>
            (Inr (build_results
                   (map2 (\<lambda>item r. set_single_offset e (fst item) r) offsets (written stages))),
             st')))"

section \<open>The coordinator of coordinator.py\<close>

text \<open>
  The attributes that \<open>__init__\<close> assigns and the update reads. The home id and name
  carry a prefix, since \<open>TadoXData\<close> has fields of these names. A room mapping is a dict
  with string values; a key can be missing.
\<close>

record room_config =
  offset_entity :: "string option"
  temperature_sensor :: "string option"

record coordinator =
  coord_home_id :: int
  coord_home_name :: string
  geofencing_enabled :: bool
  auto_offset_sync :: bool
  room_configs :: "room_config list"
  offset_hysteresis :: real

text \<open>
  \<open>self.offset_mappings\<close>, read in line 327. No statement of the class or of the
  integration assigns an attribute of this name: \<open>__init__\<close> stores the mappings as
  \<open>room_configs\<close>, and the base class \<open>DataUpdateCoordinator\<close> of Home Assistant has no
  such attribute. Reading it raises AttributeError.
\<close>

definition offset_mappings :: "coordinator \<Rightarrow> error + json" where
  "offset_mappings self = Inl AttributeError"

subsection \<open>The offset sync\<close>

text \<open>
  Lines 354 to 385: from a room mapping to the serial number of the device of its offset
  entity, through the entity registry and the device registry; \<open>None\<close> is a
  \<open>continue\<close>. The serial is the second component of the first identifier of the
  device whose first component is the domain.
\<close>

definition resolve_device_serial :: "env \<Rightarrow> room_config \<Rightarrow> string option" where
  "resolve_device_serial e rc =
     (case (offset_entity rc, temperature_sensor rc) of
        (Some offset_entity_id, Some temp_sensor_entity_id) \<Rightarrow>
          if offset_entity_id = [] \<or> temp_sensor_entity_id = [] then None
          else
            (case entity_registry e offset_entity_id of
               None \<Rightarrow> None
             | Some entity \<Rightarrow>
                 (case device_id entity of
                    None \<Rightarrow> None
                  | Some did \<Rightarrow>
                      if did = [] then None
                      else
                        (case device_registry e did of
                           None \<Rightarrow> None
                         | Some device \<Rightarrow>
                             (case find (\<lambda>identifier. fst identifier = DOMAIN e) (identifiers device) of
                                None \<Rightarrow> None
                              | Some identifier \<Rightarrow>
                                  if snd identifier = [] then None else Some (snd identifier)))))
      | _ \<Rightarrow> None)"

text \<open>
  \<open>round(x, 1)\<close>: to the nearest tenth, a tie to the even one. Python rounds the binary
  float; here the number is the real number.
\<close>

definition round_half_even :: "real \<Rightarrow> int" where
  "round_half_even x =
     (if x - of_int \<lfloor>x\<rfloor> < 1 / 2 then \<lfloor>x\<rfloor>
      else if x - of_int \<lfloor>x\<rfloor> > 1 / 2 then \<lfloor>x\<rfloor> + 1
      else if even \<lfloor>x\<rfloor> then \<lfloor>x\<rfloor> else \<lfloor>x\<rfloor> + 1)"

definition py_round1 :: "real \<Rightarrow> real" where
  "py_round1 x = of_int (round_half_even (x * 10)) / 10"

text \<open>
  Lines 415 to 424: the new offset, and the queue \<open>offsets_to_update\<close> after the
  hysteresis test.
\<close>

definition new_offset :: "real \<Rightarrow> real \<Rightarrow> real" where
  "new_offset room_temp valve_temp = max (- 3) (min 3 (py_round1 (room_temp - valve_temp)))"

definition queue_offset ::
  "real \<Rightarrow> string \<Rightarrow> real \<Rightarrow> real \<Rightarrow> (string \<times> real) list \<Rightarrow> (string \<times> real) list" where
  "queue_offset hysteresis device_serial offset current_offset offsets_to_update =
     (if \<bar>offset - current_offset\<bar> > hysteresis
      then AList.update device_serial offset offsets_to_update
      else offsets_to_update)"

text \<open>
  Lines 353 to 435: one pass of the loop over the room mappings. The subtraction of the
  measured temperature and of the current offset raise TypeError when the snapshot holds
  something that is not a number there; this exception leaves the function.
\<close>

definition room_sensor_temperature :: "env \<Rightarrow> room_config \<Rightarrow> real option" where
  "room_sensor_temperature e rc =
     (case temperature_sensor rc of
        None \<Rightarrow> None
      | Some temp_sensor_entity_id \<Rightarrow>
          (case states e temp_sensor_entity_id of
             None \<Rightarrow> None
           | Some state \<Rightarrow>
               if state = ''unknown'' \<or> state = ''unavailable'' then None
               else py_float e state))"

definition sync_room ::
  "env \<Rightarrow> real \<Rightarrow> TadoXData \<Rightarrow> room_config \<Rightarrow> (string \<times> real) list
     \<Rightarrow> error + (string \<times> real) list" where
  "sync_room e hysteresis data rc offsets_to_update =
     (case resolve_device_serial e rc of
        None \<Rightarrow> Inr offsets_to_update
      | Some device_serial \<Rightarrow>
          (case pd_lookup (devices data) (JStr device_serial) of
             None \<Rightarrow> Inr offsets_to_update
           | Some device_data \<Rightarrow>
               if temperature_measured device_data = JNull then Inr offsets_to_update
               else
                 (case room_sensor_temperature e rc of
                    None \<Rightarrow> Inr offsets_to_update
                  | Some room_temp \<Rightarrow>
                      bind (py_num (temperature_measured device_data)) (\<lambda>valve_temp.
                      bind (py_num (temperature_offset device_data)) (\<lambda>current_offset.
                      Inr (queue_offset hysteresis device_serial
                             (new_offset room_temp valve_temp) current_offset
                             offsets_to_update))))))"

fun sync_rooms ::
  "env \<Rightarrow> real \<Rightarrow> TadoXData \<Rightarrow> room_config list \<Rightarrow> (string \<times> real) list
     \<Rightarrow> error + (string \<times> real) list" where
  "sync_rooms e hysteresis data [] offsets_to_update = Inr offsets_to_update"
| "sync_rooms e hysteresis data (rc # rest) offsets_to_update =
     (case sync_room e hysteresis data rc offsets_to_update of
        Inl err \<Rightarrow> Inl err
      | Inr offsets' \<Rightarrow> sync_rooms e hysteresis data rest offsets')"

text \<open>
  \<open>_auto_sync_temperature_offsets\<close>. The queued offsets are written in one call, inside
  a \<open>try\<close> that catches every exception.
\<close>

definition auto_sync_temperature_offsets :: "env \<Rightarrow> coordinator \<Rightarrow> TadoXData \<Rightarrow> unit io" where
  "auto_sync_temperature_offsets e self data =
     io_bind (\<lambda>st. (Inr (), st\<lparr>events := events st @ [SyncInvoked]\<rparr>)) (\<lambda>_.
     io_bind (io_lift (sync_rooms e (offset_hysteresis self) data (room_configs self) []))
       (\<lambda>offsets_to_update.
          if offsets_to_update = [] then io_return ()
          else (\<lambda>st. (Inr (), snd (set_multiple_device_temperature_offsets e offsets_to_update st)))))"

subsection \<open>Geofencing\<close>

text \<open>
  \<open>async_geofencing_check\<close>, called with the home state already fetched. Its \<open>try\<close>
  catches every exception, so it always returns; the update ignores what it returns.
\<close>

definition device_at_home :: "json \<Rightarrow> error + bool" where
  "device_at_home device =
     bind (dict_get_default device ''settings'' (JObj [])) (\<lambda>settings.
     bind (dict_get_default settings ''geoTrackingEnabled'' (JBool False)) (\<lambda>geo_enabled.
     bind (dict_get device ''location'') (\<lambda>location.
     if truthy geo_enabled \<and> truthy location then
       bind (dict_get location ''atHome'') (\<lambda>at_home. Inr (truthy at_home))
     else Inr False)))"

fun devices_home :: "json list \<Rightarrow> error + nat" where
  "devices_home [] = Inr 0"
| "devices_home (device # rest) =
     (case device_at_home device of
        Inl err \<Rightarrow> Inl err
      | Inr here \<Rightarrow>
          (case devices_home rest of
             Inl err \<Rightarrow> Inl err
           | Inr n \<Rightarrow> Inr (if here then Suc n else n)))"

definition geofencing_try :: "env \<Rightarrow> json \<Rightarrow> json io" where
  "geofencing_try e home_state =
     io_bind (io_lift (dict_get home_state ''presence'')) (\<lambda>presence_v.
     io_bind (get_mobile_devices e) (\<lambda>mobile_devices.
     io_bind (io_lift (devices_home mobile_devices)) (\<lambda>n.
     io_bind (if n > 0 \<and> presence_v = JStr ''AWAY'' then set_presence e ''HOME''
              else if n = 0 \<and> presence_v = JStr ''HOME'' then set_presence e ''AWAY''
              else io_return ()) (\<lambda>_.
     io_return presence_v))))"

definition async_geofencing_check :: "env \<Rightarrow> json \<Rightarrow> json io" where
  "async_geofencing_check e home_state st =
     (case geofencing_try e home_state st of
        (Inl err, st') \<Rightarrow>
          ((if truthy home_state
            then (case dict_get home_state ''presence'' of Inr p \<Rightarrow> Inr p | Inl err' \<Rightarrow> Inl err')
            else Inr JNull), st')
      | r \<Rightarrow> r)"

subsection \<open>One poll cycle\<close>

text \<open>
  \<open>_async_update_data\<close>. The three \<open>except\<close> clauses wrap every exception of the body
  into UpdateFailed.
\<close>

definition update_except :: "'a io \<Rightarrow> 'a io" where
  "update_except m st =
     (case m st of
        (Inl (TadoXAuthError msg), st') \<Rightarrow>
          (Inl (UpdateFailed ''Authentication error'' (TadoXAuthError msg)), st')
      | (Inl (TadoXApiError msg), st') \<Rightarrow>
          (Inl (UpdateFailed ''API error'' (TadoXApiError msg)), st')
      | (Inl err, st') \<Rightarrow> (Inl (UpdateFailed ''Unexpected error'' err), st')
      | (Inr x, st') \<Rightarrow> (Inr x, st'))"

definition sync_if_configured :: "env \<Rightarrow> coordinator \<Rightarrow> TadoXData \<Rightarrow> unit io" where
  "sync_if_configured e self data =
     (if auto_offset_sync self then
        io_bind (io_lift (offset_mappings self)) (\<lambda>mappings.
        if truthy mappings then auto_sync_temperature_offsets e self data else io_return ())
      else io_return ())"

definition async_update_data :: "env \<Rightarrow> coordinator \<Rightarrow> TadoXData io" where
  "async_update_data e self =
     update_except
       (io_bind (get_home_state e) (\<lambda>home_state.
        io_bind (io_lift (dict_get home_state ''presence'')) (\<lambda>presence_v.
        io_bind (if geofencing_enabled self
                 then io_bind (async_geofencing_check e home_state) (\<lambda>_. io_return ())
                 else io_return ()) (\<lambda>_.
        io_bind (get_rooms e) (\<lambda>rooms_data.
        io_bind (get_rooms_and_devices e) (\<lambda>rooms_devices_data.
        io_bind (io_lift (build_snapshot (value_str e) (coord_home_id self) (coord_home_name self)
                            presence_v rooms_data rooms_devices_data)) (\<lambda>data.
        io_bind (sync_if_configured e self data) (\<lambda>_.
        io_return data))))))))"

section \<open>Notions used in the proofs\<close>

text \<open>
  The rooms after a device was appended to the list of the room its room id names, if
  any; two room dicts with the same keys and room names; and a room dict in which the
  room id of every device of a room names a room.
\<close>

definition attach_device :: "TadoXRoom pydict \<Rightarrow> TadoXDevice \<Rightarrow> TadoXRoom pydict" where
  "attach_device rs d =
     (case (if truthy (room_id d) then pd_lookup rs (room_id d) else None) of
        None \<Rightarrow> rs
      | Some room \<Rightarrow> pd_update rs (room_id d) (room\<lparr>rm_devices := rm_devices room @ [d]\<rparr>))"

definition same_names :: "TadoXRoom pydict \<Rightarrow> TadoXRoom pydict \<Rightarrow> bool" where
  "same_names rs rs' = (\<forall>k. map_option name (pd_lookup rs k) = map_option name (pd_lookup rs' k))"

definition rooms_name_rooms :: "TadoXRoom pydict \<Rightarrow> bool" where
  "rooms_name_rooms rs =
     (\<forall>k room. pd_lookup rs k = Some room \<longrightarrow>
        (\<forall>x\<in>set (rm_devices room). truthy_member rs (room_id x) = Inr True))"


subsection \<open>The outcome of each write, and of a poll\<close>


text \<open>
  For the comparison of a task of \<open>gather\<close> with \<open>_request\<close> run on its own: the parts
  of \<open>request\<close> from the retry on, from the answer to the first request on and from the
  first request on; and a call's outcome as the stage list of a single returned task.
\<close>

definition retry_tail :: "env \<Rightarrow> string \<Rightarrow> string \<Rightarrow> json option \<Rightarrow> json io" where
  "retry_tail e meth u jd =
     io_bind (\<lambda>st. send e (api_request meth u jd (access_token st)) st) retry_result"

definition answered :: "env \<Rightarrow> string \<Rightarrow> string \<Rightarrow> json option \<Rightarrow> http_response \<Rightarrow> json io" where
  "answered e meth u jd response =
     (if status response = 401 then
        io_bind (refresh_access_token e) (\<lambda>_. retry_tail e meth u jd)
      else first_result response)"

definition first_tail :: "env \<Rightarrow> string \<Rightarrow> string \<Rightarrow> json option \<Rightarrow> json io" where
  "first_tail e meth u jd =
     io_bind (\<lambda>st. send e (api_request meth u jd (access_token st)) st) (answered e meth u jd)"

definition returned_of :: "json io \<Rightarrow> TadoXApi \<Rightarrow> stage list \<times> TadoXApi" where
  "returned_of m st = (case m st of (r, st') \<Rightarrow> ([Returned r], st'))"

definition polled_from :: "env \<Rightarrow> string \<Rightarrow> TadoXApi \<Rightarrow> bool" where
  "polled_from e device_code st' =
     (\<exists>h r kvs secs.
        session e h (device_code_request e device_code) = Response r \<and>
        status r = 200 \<and> json_body r = Inr (JObj kvs) \<and>
        events st' = h @ [Sent (device_code_request e device_code), ClockRead] \<and>
        refresh_token st' = (case map_of kvs ''refresh_token'' of None \<Rightarrow> JNull | Some v \<Rightarrow> v) \<and>
        py_num (case map_of kvs ''expires_in'' of None \<Rightarrow> JNum 600 | Some v \<Rightarrow> v) = Inr secs \<and>
        token_expiry st' =
          Some (Naive (localnow e (h @ [Sent (device_code_request e device_code)]) + secs)))"

subsection \<open>An example environment\<close>

text \<open>
  The token endpoint answers 200 with a new access token and a lifetime of 3600 seconds
  but no refresh token; the API answers the first request with the status \<open>first\<close> and
  every later one with the status \<open>later\<close>, with an empty body. The UTC clock shows
  1000 and the local clock 4600. The event loop runs the first of the tasks that have
  not returned.
\<close>

definition example_session :: "int \<Rightarrow> int \<Rightarrow> event list \<Rightarrow> http_request \<Rightarrow> outcome" where
  "example_session first later h r =
     (if url r = ''https://token'' then
        Response \<lparr>status = 200, content_length = Some 40, body_text = ''{...}'',
                  json_body = Inr (JObj [(''access_token'', JStr ''new''),
                                         (''expires_in'', JNum 3600)])\<rparr>
      else
        Response \<lparr>status = (if h = [] then first else later), content_length = Some 0,
                  body_text = [], json_body = Inl ValueError\<rparr>)"

definition example_env :: "int \<Rightarrow> int \<Rightarrow> env" where
  "example_env first later =
     \<lparr>session = example_session first later,
      utcnow = (\<lambda>h. 1000), localnow = (\<lambda>h. 4600),
      TADO_TOKEN_URL = ''https://token'', TADO_CLIENT_ID = ''client'',
      TADO_HOPS_API_URL = ''https://hops'', TADO_MY_API_URL = ''https://my'',
      DOMAIN = ''tado_x'', value_str = (\<lambda>_. ''?''), builtin_str = (\<lambda>_. ''?''),
      py_float = (\<lambda>_. None), entity_registry = (\<lambda>_. None), device_registry = (\<lambda>_. None),
      states = (\<lambda>_. None), event_loop = (\<lambda>h waiting. 0)\<rparr>"



definition example_api :: "json \<Rightarrow> TadoXApi" where
  "example_api held =
     \<lparr>access_token = JStr ''old'', refresh_token = held, token_expiry = None,
      api_home_id = Some 5, events = []\<rparr>"

definition count_sent :: "string \<Rightarrow> event list \<Rightarrow> nat" where
  "count_sent u evs = length (filter (\<lambda>x. case x of Sent r \<Rightarrow> url r = u | _ \<Rightarrow> False) evs)"






definition polled_example :: TadoXApi where
  "polled_example =
     (case poll_for_token 3 (example_env 401 200) ''device-code'' 5 300 (example_api (JStr ''r0'')) of
        Some (_, st') \<Rightarrow> st' | None \<Rightarrow> example_api (JStr ''r0''))"

subsection \<open>An example room-state payload\<close>

definition room_payload_example :: json where
  "room_payload_example = JObj [
     (''id'', JNum 7), (''name'', JStr ''Bath''),
     (''setting'', JObj [(''power'', JStr ''ON''), (''temperature'', JObj [(''value'', JNum 21)])]),
     (''connection'', JObj [(''state'', JStr ''CONNECTED'')])]"

subsection \<open>An example home\<close>

text \<open>
  Room 1 has one device and room 7 has three; the other devices are a bridge whose room
  id 99 names no room and a wall thermostat \<open>TR04\<close> without a room id.
\<close>

definition example_rooms_data :: "json list" where
  "example_rooms_data =
     [JObj [(''id'', JNum 1), (''name'', JStr ''Hall'')],
      JObj [(''id'', JNum 7), (''name'', JStr ''Bath'')]]"

definition example_room_devices_map :: "json pydict" where
  "example_room_devices_map =
     [(JNum 1, JArr [JObj [(''serialNumber'', JStr ''VA1''), (''type'', JStr ''VA04'')]]),
      (JNum 7, JArr [JObj [(''serialNumber'', JStr ''VA2''), (''type'', JStr ''VA04'')],
                     JObj [(''serialNumber'', JStr ''VA3''), (''type'', JStr ''VA04'')],
                     JObj [(''serialNumber'', JStr ''SU1''), (''type'', JStr ''SU04'')]])]"

definition example_other_devices :: "json list" where
  "example_other_devices =
     [JObj [(''serialNumber'', JStr ''IB1''), (''type'', JStr ''IB02''), (''roomId'', JNum 99)],
      JObj [(''serialNumber'', JStr ''TR1''), (''type'', JStr ''TR04'')]]"

definition empty_data :: TadoXData where
  "empty_data = \<lparr>home_id = 5, home_name = ''Home'', presence = JStr ''HOME'',
     rooms = [], devices = [], other_devices = []\<rparr>"

definition example_built :: TadoXData where
  "example_built =
     (case process_rooms (\<lambda>_. ''?'') example_room_devices_map example_rooms_data empty_data of
        Inr data \<Rightarrow> data | Inl _ \<Rightarrow> empty_data)"

definition example_snapshot :: TadoXData where
  "example_snapshot =
     (case process_other_devices (JNum 7) example_other_devices example_built of
        Inr data \<Rightarrow> data | Inl _ \<Rightarrow> empty_data)"

text \<open>
  The same rooms with other devices that are four bridges of room 1 followed by a wall
  thermostat without a room id; the snapshot after the four bridges, and the one after
  all five. \<open>device_counts\<close> lists the rooms with the lengths of their device lists.
\<close>

definition bridges_then_thermostat :: "json list" where
  "bridges_then_thermostat =
     [JObj [(''serialNumber'', JStr ''IB1''), (''type'', JStr ''IB02''), (''roomId'', JNum 1)],
      JObj [(''serialNumber'', JStr ''IB2''), (''type'', JStr ''IB02''), (''roomId'', JNum 1)],
      JObj [(''serialNumber'', JStr ''IB3''), (''type'', JStr ''IB02''), (''roomId'', JNum 1)],
      JObj [(''serialNumber'', JStr ''IB4''), (''type'', JStr ''IB02''), (''roomId'', JNum 1)],
      JObj [(''serialNumber'', JStr ''TR1''), (''type'', JStr ''TR04'')]]"

definition bridges_attached :: TadoXData where
  "bridges_attached =
     (case process_other_devices (JNum 7) (take 4 bridges_then_thermostat) example_built of
        Inr data \<Rightarrow> data | Inl _ \<Rightarrow> empty_data)"

definition bridges_snapshot :: TadoXData where
  "bridges_snapshot =
     (case process_other_devices (JNum 7) bridges_then_thermostat example_built of
        Inr data \<Rightarrow> data | Inl _ \<Rightarrow> empty_data)"

definition device_counts :: "TadoXRoom pydict \<Rightarrow> (json \<times> nat) list" where
  "device_counts rs = map (\<lambda>(k, room). (k, length (rm_devices room))) rs"

subsection \<open>An example room mapping\<close>

text \<open>
  The offset entity of the mapping belongs to the device \<open>VA2\<close>, which measures 20
  degrees and has the offset 0; the temperature sensor of the mapping shows 30 degrees.
\<close>

definition sync_config :: room_config where
  "sync_config = \<lparr>offset_entity = Some ''number.bath_offset'',
                   temperature_sensor = Some ''sensor.bath_temperature''\<rparr>"




subsection \<open>Entries into the offset sync\<close>

text \<open>
  The number of entries into \<open>_auto_sync_temperature_offsets\<close> among the events; a call
  that adds none; and a coordinator with auto offset sync enabled and one room mapping.
\<close>

definition count_sync :: "event list \<Rightarrow> nat" where
  "count_sync evs = length (filter (\<lambda>x. x = SyncInvoked) evs)"

definition quiet :: "'a io \<Rightarrow> bool" where
  "quiet m = (\<forall>st. count_sync (events (snd (m st))) = count_sync (events st))"

definition syncing_coordinator :: coordinator where
  "syncing_coordinator =
     \<lparr>coord_home_id = 5, coord_home_name = ''Home'', geofencing_enabled = False,
      auto_offset_sync = True, room_configs = [sync_config], offset_hysteresis = 1 / 2\<rparr>"


(*PROPERTIES*)

section \<open>Properties\<close>

subsection \<open>Helper lemmas\<close>

lemma bind_Inr [simp]: "bind (Inr x) f = f x" by (simp add: bind_def)
lemma bind_Inl [simp]: "bind (Inl e) f = Inl e" by (simp add: bind_def)

lemma dict_get_empty [simp]: "dict_get (JObj []) k = Inr JNull"
  by (simp add: dict_get_def)
lemma dict_get_default_empty [simp]: "dict_get_default (JObj []) k d = Inr d"
  by simp
lemma dict_get_or_empty_empty [simp]: "dict_get_or_empty (JObj []) k = Inr (JObj [])"
  by (simp add: dict_get_or_empty_def or_empty_def)

lemma opt_object_get:
  "opt_object x k P \<Longrightarrow>
   \<exists>kvs. dict_get_or_empty x k = Inr (JObj kvs) \<and> (absent x k \<longrightarrow> kvs = []) \<and>
         (kvs \<noteq> [] \<longrightarrow> P (JObj kvs))"
  by (cases "dict_get x k")
     (auto simp: opt_object_def dict_get_or_empty_def or_empty_def absent_def
      split: json.splits)

lemma dict_get_obj: "\<exists>v. dict_get (JObj kvs) k = Inr v"
  by (simp add: dict_get_def)

lemma dict_get_default_obj: "\<exists>v. dict_get_default (JObj kvs) k d = Inr v"
  by simp

lemma manual_control_fields_ok:
  assumes "opt_object p ''manualControlTermination'' (\<lambda>_. True)"
  shows "\<exists>mc r t. dict_get p ''manualControlTermination'' = Inr mc \<and>
           manual_control_fields mc = Inr (r, t) \<and>
           (absent p ''manualControlTermination'' \<longrightarrow> mc = JNull \<and> r = JNull \<and> t = JNull)"
  using assms
  by (cases "dict_get p ''manualControlTermination''")
     (auto simp: opt_object_def manual_control_fields_def absent_def dict_get_def
      split: json.splits)

subsection \<open>Absent sub-objects of a room-state payload\<close>

text \<open>
  Claim C7. A room-state payload is a JSON object with an id, in which each of
  \<open>sensorDataPoints\<close>, \<open>setting\<close>, \<open>manualControlTermination\<close>, \<open>nextScheduleChange\<close>,
  \<open>heatingPower\<close> and \<open>connection\<close> is a JSON object or is missing or \<open>null\<close>.
  Normalising such a payload does not raise and gives a room; for each of the six that is
  missing or \<open>null\<close>, the room's fields read from it have their defaults. In particular
  a payload without \<open>sensorDataPoints\<close> gives \<open>current_temperature = None\<close>.
\<close>

theorem build_room_absent_safe:
  assumes id: "dict_get p ''id'' = Inr rid" "truthy rid"
    and wf: "room_state_payload p"
  shows "\<exists>room. build_room py_str p = Inr (Some room) \<and>
     (absent p ''sensorDataPoints'' \<longrightarrow>
        current_temperature room = JNull \<and> humidity room = JNull) \<and>
     (absent p ''setting'' \<longrightarrow>
        target_temperature room = JNull \<and> rm_power room = JStr ''OFF'') \<and>
     (absent p ''manualControlTermination'' \<longrightarrow>
        \<not> manual_control_active room \<and> manual_control_remaining_seconds room = JNull \<and>
        manual_control_type room = JNull) \<and>
     (absent p ''nextScheduleChange'' \<longrightarrow>
        next_schedule_change room = JNull \<and> next_schedule_temperature room = JNull) \<and>
     (absent p ''heatingPower'' \<longrightarrow> heating_power room = JNum 0) \<and>
     (absent p ''connection'' \<longrightarrow> rm_connection_state room = JStr ''DISCONNECTED'')"
proof -
  obtain pk where p: "p = JObj pk"
    using id(1) by (cases p) (auto simp: dict_get_def)
  from wf obtain sd where sd: "dict_get_or_empty p ''sensorDataPoints'' = Inr (JObj sd)"
      "absent p ''sensorDataPoints'' \<longrightarrow> sd = []"
      "sd \<noteq> [] \<longrightarrow> opt_object (JObj sd) ''insideTemperature'' (\<lambda>_. True) \<and>
                  opt_object (JObj sd) ''humidity'' (\<lambda>_. True)"
    unfolding room_state_payload_def using opt_object_get by blast
  have "\<exists>it. dict_get_or_empty (JObj sd) ''insideTemperature'' = Inr (JObj it) \<and> (sd = [] \<longrightarrow> it = [])"
    using sd(3) opt_object_get [of "JObj sd" "''insideTemperature''" "\<lambda>_. True"]
    by (cases "sd = []") auto
  then obtain it where it: "dict_get_or_empty (JObj sd) ''insideTemperature'' = Inr (JObj it)"
      "sd = [] \<longrightarrow> it = []" by blast
  have "\<exists>hu. dict_get_or_empty (JObj sd) ''humidity'' = Inr (JObj hu) \<and> (sd = [] \<longrightarrow> hu = [])"
    using sd(3) opt_object_get [of "JObj sd" "''humidity''" "\<lambda>_. True"]
    by (cases "sd = []") auto
  then obtain hu where hu: "dict_get_or_empty (JObj sd) ''humidity'' = Inr (JObj hu)"
      "sd = [] \<longrightarrow> hu = []" by blast
  from wf obtain se where se: "dict_get_or_empty p ''setting'' = Inr (JObj se)"
      "absent p ''setting'' \<longrightarrow> se = []"
      "se \<noteq> [] \<longrightarrow> opt_object (JObj se) ''temperature'' (\<lambda>_. True)"
    unfolding room_state_payload_def using opt_object_get by blast
  have "\<exists>tt. dict_get_or_empty (JObj se) ''temperature'' = Inr (JObj tt) \<and> (se = [] \<longrightarrow> tt = [])"
    using se(3) opt_object_get [of "JObj se" "''temperature''" "\<lambda>_. True"]
    by (cases "se = []") auto
  then obtain tt where tt: "dict_get_or_empty (JObj se) ''temperature'' = Inr (JObj tt)"
      "se = [] \<longrightarrow> tt = []" by blast
  from wf obtain mc r t where mc: "dict_get p ''manualControlTermination'' = Inr mc"
      "manual_control_fields mc = Inr (r, t)"
      "absent p ''manualControlTermination'' \<longrightarrow> mc = JNull \<and> r = JNull \<and> t = JNull"
    unfolding room_state_payload_def using manual_control_fields_ok by blast
  from wf obtain nc where nc: "dict_get_or_empty p ''nextScheduleChange'' = Inr (JObj nc)"
      "absent p ''nextScheduleChange'' \<longrightarrow> nc = []"
      "nc \<noteq> [] \<longrightarrow> opt_object (JObj nc) ''setting''
                   (\<lambda>s. opt_object s ''temperature'' (\<lambda>_. True))"
    unfolding room_state_payload_def using opt_object_get by blast
  have "\<exists>ns. dict_get_or_empty (JObj nc) ''setting'' = Inr (JObj ns) \<and> (nc = [] \<longrightarrow> ns = []) \<and>
          (ns \<noteq> [] \<longrightarrow> opt_object (JObj ns) ''temperature'' (\<lambda>_. True))"
    using nc(3) opt_object_get [of "JObj nc" "''setting''" "\<lambda>s. opt_object s ''temperature'' (\<lambda>_. True)"]
    by (cases "nc = []") auto
  then obtain ns where ns: "dict_get_or_empty (JObj nc) ''setting'' = Inr (JObj ns)"
      "nc = [] \<longrightarrow> ns = []" "ns \<noteq> [] \<longrightarrow> opt_object (JObj ns) ''temperature'' (\<lambda>_. True)"
    by blast
  have "\<exists>nt. dict_get_or_empty (JObj ns) ''temperature'' = Inr (JObj nt) \<and> (ns = [] \<longrightarrow> nt = [])"
    using ns(3) opt_object_get [of "JObj ns" "''temperature''" "\<lambda>_. True"]
    by (cases "ns = []") auto
  then obtain nt where nt: "dict_get_or_empty (JObj ns) ''temperature'' = Inr (JObj nt)"
      "ns = [] \<longrightarrow> nt = []" by blast
  from wf obtain hp where hp: "dict_get_or_empty p ''heatingPower'' = Inr (JObj hp)"
      "absent p ''heatingPower'' \<longrightarrow> hp = []"
    unfolding room_state_payload_def using opt_object_get by blast
  from wf obtain cn where cn: "dict_get_or_empty p ''connection'' = Inr (JObj cn)"
      "absent p ''connection'' \<longrightarrow> cn = []"
    unfolding room_state_payload_def using opt_object_get by blast
  obtain nm where nm: "dict_get_default p ''name'' (JStr (''Room '' @ py_str rid)) = Inr nm"
    using p by auto
  obtain bo where bo: "dict_get p ''boostMode'' = Inr bo"
    using p dict_get_obj by blast
  obtain ow where ow: "dict_get p ''openWindow'' = Inr ow"
    using p dict_get_obj by blast
  obtain nst where nst: "dict_get (JObj nc) ''start'' = Inr nst" "nc = [] \<longrightarrow> nst = JNull"
    by (cases "nc = []") (auto simp: dict_get_def)
  obtain ntv where ntv: "dict_get (JObj nt) ''value'' = Inr ntv" "nt = [] \<longrightarrow> ntv = JNull"
    by (cases "nt = []") (auto simp: dict_get_def)
  obtain itv where itv: "dict_get (JObj it) ''value'' = Inr itv" "it = [] \<longrightarrow> itv = JNull"
    by (cases "it = []") (auto simp: dict_get_def)
  obtain ttv where ttv: "dict_get (JObj tt) ''value'' = Inr ttv" "tt = [] \<longrightarrow> ttv = JNull"
    by (cases "tt = []") (auto simp: dict_get_def)
  obtain huv where huv: "dict_get (JObj hu) ''percentage'' = Inr huv" "hu = [] \<longrightarrow> huv = JNull"
    by (cases "hu = []") (auto simp: dict_get_def)
  obtain hpv where hpv: "dict_get_default (JObj hp) ''percentage'' (JNum 0) = Inr hpv"
      "hp = [] \<longrightarrow> hpv = JNum 0"
    by (cases "hp = []") auto
  obtain pwv where pwv: "dict_get_default (JObj se) ''power'' (JStr ''OFF'') = Inr pwv"
      "se = [] \<longrightarrow> pwv = JStr ''OFF''"
    by (cases "se = []") auto
  obtain cnv where cnv: "dict_get_default (JObj cn) ''state'' (JStr ''DISCONNECTED'') = Inr cnv"
      "cn = [] \<longrightarrow> cnv = JStr ''DISCONNECTED''"
    by (cases "cn = []") auto
  have "build_room py_str p = Inr (Some \<lparr>
       rm_room_id = rid, name = nm, current_temperature = itv, target_temperature = ttv,
       humidity = huv, heating_power = hpv, rm_power = pwv, rm_connection_state = cnv,
       manual_control_active = (mc \<noteq> JNull), manual_control_remaining_seconds = r,
       manual_control_type = t, boost_mode = (bo \<noteq> JNull),
       open_window_detected = (ow \<noteq> JNull), next_schedule_change = nst,
       next_schedule_temperature = ntv, rm_devices = []\<rparr>)"
    unfolding build_room_def
    by (simp add: id sd it hu se tt mc nc ns nt hp cn nm [simplified] bo ow nst ntv itv ttv huv hpv(1) [simplified] pwv(1) [simplified] cnv(1) [simplified])
  then show ?thesis
    using sd(2) it(2) hu(2) se(2) tt(2) mc(3) nc(2) ns(2) nt(2) hp(2) cn(2)
      nst(2) ntv(2) itv(2) ttv(2) huv(2) hpv(2) pwv(2) cnv(2)
    by simp
qed


theorem build_room_absent_safe_witness:
  "dict_get room_payload_example ''id'' = Inr (JNum 7) \<and> truthy (JNum 7) \<and>
   room_state_payload room_payload_example \<and>
   absent room_payload_example ''sensorDataPoints'' \<and>
   (\<exists>room. build_room (\<lambda>_. ''7'') room_payload_example = Inr (Some room) \<and>
      current_temperature room = JNull \<and> humidity room = JNull \<and>
      heating_power room = JNum 0 \<and> \<not> manual_control_active room)"
proof -
  have h1: "dict_get room_payload_example ''id'' = Inr (JNum 7)"
    by (simp add: room_payload_example_def dict_get_def)
  have h2: "truthy (JNum 7)" by simp
  have h3: "room_state_payload room_payload_example"
    by (simp add: room_payload_example_def room_state_payload_def opt_object_def dict_get_def)
  have a1: "absent room_payload_example ''sensorDataPoints''"
    by (simp add: room_payload_example_def absent_def dict_get_def)
  have a2: "absent room_payload_example ''heatingPower''"
    by (simp add: room_payload_example_def absent_def dict_get_def)
  have a3: "absent room_payload_example ''manualControlTermination''"
    by (simp add: room_payload_example_def absent_def dict_get_def)
  show ?thesis
    using build_room_absent_safe [OF h1 h2 h3, of "\<lambda>_. ''7''"] h1 h3 a1 a2 a3 by auto
qed

subsection \<open>Python dicts and the loop over the other devices\<close>

lemma bind_eq_Inr: "bind m f = Inr y \<longleftrightarrow> (\<exists>x. m = Inr x \<and> f x = Inr y)"
  by (cases m) (simp_all add: bind_def)

lemma pd_lookup_update:
  "pd_lookup (pd_update d k v) k' = (if key_norm k = key_norm k' then Some v else pd_lookup d k')"
  by (induction d) auto

lemma pd_update_keys: "pd_lookup d k \<noteq> None \<Longrightarrow> map fst (pd_update d k v) = map fst d"
  by (induction d) auto

lemma pd_lookup_attach:
  "pd_lookup (attach_device rs d) k =
     (case pd_lookup rs k of None \<Rightarrow> None
      | Some room \<Rightarrow> Some (if truthy (room_id d) \<and> key_norm (room_id d) = key_norm k
                           then room\<lparr>rm_devices := rm_devices room @ [d]\<rparr> else room))"
proof (cases "truthy (room_id d)")
  case False
  then show ?thesis by (simp add: attach_device_def split: option.splits)
next
  case True
  show ?thesis
  proof (cases "pd_lookup rs (room_id d)")
    case None
    have "pd_lookup rs k = None" if "key_norm (room_id d) = key_norm k"
      using None that by (induction rs) (auto split: if_splits)
    with None True show ?thesis by (auto simp: attach_device_def split: option.splits)
  next
    case (Some room)
    have "pd_lookup rs k = Some room" if "key_norm (room_id d) = key_norm k"
      using Some that by (induction rs) (auto split: if_splits)
    with Some True show ?thesis
      by (auto simp: attach_device_def pd_lookup_update split: option.splits)
  qed
qed

lemma attach_keys: "map fst (attach_device rs d) = map fst rs"
  by (auto simp: attach_device_def pd_update_keys split: option.splits)

lemma same_names_attach: "same_names rs (attach_device rs d)"
  by (auto simp: same_names_def pd_lookup_attach split: option.splits)

lemma same_names_refl: "same_names rs rs"
  by (simp add: same_names_def)

lemma same_names_trans: "same_names a b \<Longrightarrow> same_names b c \<Longrightarrow> same_names a c"
  by (simp add: same_names_def)

lemma same_names_member: "same_names rs rs' \<Longrightarrow> truthy_member rs = truthy_member rs'"
proof (rule ext)
  fix k
  assume "same_names rs rs'"
  then have "map_option name (pd_lookup rs k) = map_option name (pd_lookup rs' k)"
    by (simp add: same_names_def)
  then have "(pd_lookup rs k = None) = (pd_lookup rs' k = None)"
    by (cases "pd_lookup rs k"; cases "pd_lookup rs' k") auto
  then show "truthy_member rs k = truthy_member rs' k"
    by (simp add: truthy_member_def pd_member_def)
qed

lemma same_names_room_name: "same_names rs rs' \<Longrightarrow> room_name_of rs = room_name_of rs'"
proof (rule ext)
  fix k
  assume a: "same_names rs rs'"
  then have "map_option name (pd_lookup rs k) = map_option name (pd_lookup rs' k)"
    by (simp add: same_names_def)
  then show "room_name_of rs k = room_name_of rs' k"
    by (cases "pd_lookup rs k"; cases "pd_lookup rs' k") (auto simp: room_name_of_def)
qed

lemma same_names_build:
  "same_names rs rs' \<Longrightarrow> build_other_device b rs dd = build_other_device b rs' dd"
proof -
  assume a: "same_names rs rs'"
  show ?thesis
    unfolding build_other_device_def other_device_room_def
      same_names_member [OF a] same_names_room_name [OF a] ..
qed

text \<open>One pass of the loop over the other devices.\<close>

lemma pass_char:
  assumes "process_other_device b dd data = Inr data'"
  shows "\<exists>d. build_other_device b (rooms data) dd = Inr d \<and>
     data' = data\<lparr>rooms := attach_device (rooms data) d,
                  other_devices := other_devices data @ [d],
                  devices := pd_update (devices data) (serial_number d) d\<rparr> \<and>
     hashable (serial_number d)"
proof -
  from assms obtain d has rooms' devs' where
    d: "build_other_device b (rooms data) dd = Inr d"
    and has: "truthy_member (rooms data) (room_id d) = Inr has"
    and rs: "(if has then append_room_device (rooms data) (room_id d) d else Inr (rooms data)) = Inr rooms'"
    and st: "pd_store (devices data) (serial_number d) d = Inr devs'"
    and res: "data' = data\<lparr>rooms := rooms', other_devices := other_devices data @ [d], devices := devs'\<rparr>"
    unfolding process_other_device_def bind_eq_Inr by auto
  have "rooms' = attach_device (rooms data) d"
    using has rs
    by (auto simp: truthy_member_def pd_member_def append_room_device_def attach_device_def
        split: if_splits option.splits)
  moreover have "hashable (serial_number d) \<and> devs' = pd_update (devices data) (serial_number d) d"
    using st by (auto simp: pd_store_def split: if_splits)
  ultimately show ?thesis using d res by auto
qed

lemma loop_append:
  "process_other_devices b (xs @ ys) data =
     (case process_other_devices b xs data of Inl e \<Rightarrow> Inl e
      | Inr data1 \<Rightarrow> process_other_devices b ys data1)"
  by (induction xs arbitrary: data) (auto split: sum.splits)

lemma loop_inv:
  assumes "process_other_devices b dds data = Inr data'"
  shows "same_names (rooms data) (rooms data') \<and>
     (\<exists>ds. other_devices data' = other_devices data @ ds \<and> length ds = length dds) \<and>
     (\<forall>k room. pd_lookup (rooms data) k = Some room \<longrightarrow>
        (\<exists>room'. pd_lookup (rooms data') k = Some room' \<and>
           set (rm_devices room) \<subseteq> set (rm_devices room')))"
  using assms
proof (induction dds arbitrary: data)
  case Nil
  then show ?case by (simp add: same_names_refl)
next
  case (Cons dd dds)
  from Cons.prems obtain data1 where p: "process_other_device b dd data = Inr data1"
    and l: "process_other_devices b dds data1 = Inr data'"
    by (auto split: sum.splits)
  from pass_char [OF p] obtain d where d: "rooms data1 = attach_device (rooms data) d"
      "other_devices data1 = other_devices data @ [d]" by auto
  note ih = Cons.IH [OF l]
  have s: "same_names (rooms data) (rooms data')"
    using ih d(1) same_names_attach same_names_trans by metis
  from ih obtain ds where "other_devices data' = other_devices data1 @ ds" "length ds = length dds"
    by blast
  then have o: "other_devices data' = other_devices data @ (d # ds) \<and> length (d # ds) = length (dd # dds)"
    using d(2) by simp
  have g: "\<exists>room'. pd_lookup (rooms data') k = Some room' \<and>
           set (rm_devices room) \<subseteq> set (rm_devices room')"
    if "pd_lookup (rooms data) k = Some room" for k room
  proof -
    have "\<exists>room1. pd_lookup (rooms data1) k = Some room1 \<and>
        set (rm_devices room) \<subseteq> set (rm_devices room1)"
      using that by (auto simp: d(1) pd_lookup_attach)
    then obtain room1 where r1: "pd_lookup (rooms data1) k = Some room1"
        "set (rm_devices room) \<subseteq> set (rm_devices room1)"
      by blast
    with ih obtain room' where "pd_lookup (rooms data') k = Some room'"
        "set (rm_devices room1) \<subseteq> set (rm_devices room')" by blast
    with r1 show ?thesis by blast
  qed
  from s o g show ?case by blast
qed

lemma most_devices_step_eq:
  "most_devices_step x (b0, m0) =
     (if m0 < length (rm_devices (snd x)) then (fst x, length (rm_devices (snd x))) else (b0, m0))"
  by (simp add: most_devices_step_def)

lemma most_devices_fold:
  "fold most_devices_step rs (b0, m0) = (b, m) \<Longrightarrow>
   m0 \<le> m \<and> (\<forall>item\<in>set rs. length (rm_devices (snd item)) \<le> m) \<and>
   (m = m0 \<longrightarrow> b = b0) \<and>
   (m0 < m \<longrightarrow> (\<exists>i<length rs. fst (rs ! i) = b \<and> length (rm_devices (snd (rs ! i))) = m \<and>
       (\<forall>j<i. length (rm_devices (snd (rs ! j))) < m)))"
proof (induction rs arbitrary: b0 m0)
  case Nil
  then show ?case by simp
next
  case (Cons x xs)
  let ?c = "length (rm_devices (snd x))"
  show ?case
  proof (cases "m0 < ?c")
    case True
    with Cons.prems have f: "fold most_devices_step xs (fst x, ?c) = (b, m)"
      by (simp add: most_devices_step_eq)
    note ih = Cons.IH [OF f]
    have later: "\<exists>i<length (x # xs). fst ((x # xs) ! i) = b \<and>
         length (rm_devices (snd ((x # xs) ! i))) = m \<and>
         (\<forall>j<i. length (rm_devices (snd ((x # xs) ! j))) < m)"
    proof (cases "m = ?c")
      case True
      with ih have "b = fst x" by simp
      with True show ?thesis by (intro exI [of _ 0]) simp
    next
      case False
      with ih obtain i where i: "i < length xs" "fst (xs ! i) = b"
          "length (rm_devices (snd (xs ! i))) = m"
          "\<forall>j<i. length (rm_devices (snd (xs ! j))) < m" and lt: "?c < m"
        by (metis le_neq_implies_less)
      have "\<forall>j<Suc i. length (rm_devices (snd ((x # xs) ! j))) < m"
        using i(4) lt by (auto simp: less_Suc_eq_0_disj)
      with i show ?thesis by (intro exI [of _ "Suc i"]) simp
    qed
    from ih True later show ?thesis by auto
  next
    case False
    with Cons.prems have f: "fold most_devices_step xs (b0, m0) = (b, m)"
      by (simp add: most_devices_step_eq)
    note ih = Cons.IH [OF f]
    have "m0 < m \<longrightarrow> (\<exists>i<length (x # xs). fst ((x # xs) ! i) = b \<and>
         length (rm_devices (snd ((x # xs) ! i))) = m \<and>
         (\<forall>j<i. length (rm_devices (snd ((x # xs) ! j))) < m))"
    proof
      assume lt: "m0 < m"
      with ih obtain i where i: "i < length xs" "fst (xs ! i) = b"
          "length (rm_devices (snd (xs ! i))) = m"
          "\<forall>j<i. length (rm_devices (snd (xs ! j))) < m"
        by blast
      have "\<forall>j<Suc i. length (rm_devices (snd ((x # xs) ! j))) < m"
        using i(4) lt False by (auto simp: less_Suc_eq_0_disj)
      with i show "\<exists>i<length (x # xs). fst ((x # xs) ! i) = b \<and>
         length (rm_devices (snd ((x # xs) ! i))) = m \<and>
         (\<forall>j<i. length (rm_devices (snd ((x # xs) ! j))) < m)"
        by (intro exI [of _ "Suc i"]) simp
    qed
    with ih False show ?thesis by auto
  qed
qed

lemma pd_lookup_in_set: "pd_lookup d k = Some v \<Longrightarrow> \<exists>k'. (k', v) \<in> set d \<and> key_norm k' = key_norm k"
  by (induction d) (auto split: if_splits)

lemma pd_lookup_key: "(k, v) \<in> set d \<Longrightarrow> pd_lookup d k \<noteq> None"
  by (induction d) auto

lemma pd_lookup_norm: "key_norm k = key_norm k' \<Longrightarrow> pd_lookup d k = pd_lookup d k'"
  by (induction d) auto

lemma pd_update_set:
  "(a, b) \<in> set (pd_update d k v) \<Longrightarrow> (b = v \<and> key_norm a = key_norm k) \<or> (a, b) \<in> set d"
  by (induction d) (auto split: if_splits)

lemma pd_update_key:
  "(a, b) \<in> set (pd_update d k v) \<Longrightarrow> a = k \<or> (\<exists>b'. (a, b') \<in> set d)"
  by (induction d) (auto split: if_splits)

lemma pd_update_key_set: "set (map fst (pd_update d k v)) \<subseteq> insert k (set (map fst d))"
  using pd_update_key [of _ _ d k v] by force

lemma pd_update_distinct:
  "distinct (map (\<lambda>kv. key_norm (fst kv)) d) \<Longrightarrow>
   distinct (map (\<lambda>kv. key_norm (fst kv)) (pd_update d k v))"
proof (induction d)
  case Nil
  then show ?case by simp
next
  case (Cons a d)
  have "key_norm ` fst ` set (pd_update d k v) \<subseteq> insert (key_norm k) (key_norm ` fst ` set d)"
    using pd_update_key_set [of d k v] by auto
  with Cons show ?case by (cases a) (auto simp: image_iff)
qed

lemma pd_lookup_distinct:
  "distinct (map (\<lambda>kv. key_norm (fst kv)) d) \<Longrightarrow> (k, v) \<in> set d \<Longrightarrow> pd_lookup d k = Some v"
  by (induction d) (auto simp: image_iff)

lemma bindE:
  assumes "bind m f = Inr y"
  obtains x where "m = Inr x" and "f x = Inr y"
  using assms by (auto simp: bind_eq_Inr)

lemma build_room_truthy: "build_room py_str p = Inr (Some room) \<Longrightarrow> truthy (rm_room_id room)"
  unfolding build_room_def
  by ((erule bindE | clarsimp split: if_splits)+)

lemma add_room_devices_id:
  "add_room_devices L room devs = Inr (room', devs') \<Longrightarrow>
   rm_room_id room' = rm_room_id room \<and> name room' = name room"
  by (induction L room devs rule: add_room_devices.induct) (auto split: sum.splits)

lemma process_rooms_Some:
  assumes "build_room py_str p = Inr (Some room)"
    and "process_rooms py_str mp (p # ps) data0 = Inr data"
  shows "\<exists>L room' devs'.
     bind (pd_get mp (rm_room_id room) (JArr [])) py_iter = Inr L \<and>
     add_room_devices L room (devices data0) = Inr (room', devs') \<and>
     hashable (rm_room_id room) \<and>
     process_rooms py_str mp ps
       (data0\<lparr>rooms := pd_update (rooms data0) (rm_room_id room) room', devices := devs'\<rparr>) = Inr data"
proof -
  obtain L where L: "bind (pd_get mp (rm_room_id room) (JArr [])) py_iter = Inr L"
    using assms by (cases "bind (pd_get mp (rm_room_id room) (JArr [])) py_iter") simp_all
  obtain room' devs' where a: "add_room_devices L room (devices data0) = Inr (room', devs')"
    using assms L by (cases "add_room_devices L room (devices data0)") auto
  have h: "hashable (rm_room_id room)"
    using assms L a by (cases "hashable (rm_room_id room)") (simp_all add: pd_store_def)
  with assms L a show ?thesis by (simp add: pd_store_def)
qed

lemma process_rooms_None:
  assumes "build_room py_str p = Inr None"
    and "process_rooms py_str mp (p # ps) data0 = Inr data"
  shows "process_rooms py_str mp ps data0 = Inr data"
  using assms by simp

lemma process_rooms_keys:
  assumes "process_rooms py_str mp rooms_data data0 = Inr data"
    and "\<forall>k\<in>fst ` set (rooms data0). truthy k"
    and "distinct (map (\<lambda>kv. key_norm (fst kv)) (rooms data0))"
  shows "(\<forall>k\<in>fst ` set (rooms data). truthy k) \<and>
     distinct (map (\<lambda>kv. key_norm (fst kv)) (rooms data))"
  using assms
proof (induction rooms_data arbitrary: data0)
  case Nil
  then show ?case by simp
next
  case (Cons p ps)
  show ?case
  proof (cases "build_room py_str p")
    case (Inl e)
    then have "process_rooms py_str mp (p # ps) data0 = Inl e" by simp
    with Cons.prems(1) show ?thesis by simp
  next
    case (Inr ro)
    show ?thesis
    proof (cases ro)
      case None
      have "process_rooms py_str mp ps data0 = Inr data"
        using process_rooms_None [OF Inr [unfolded None] Cons.prems(1)] .
      then show ?thesis using Cons.prems(2,3) by (rule Cons.IH)
    next
      case (Some room)
      from process_rooms_Some [OF Inr [unfolded Some] Cons.prems(1)] obtain L room' devs' where
        a: "add_room_devices L room (devices data0) = Inr (room', devs')"
        and rest: "process_rooms py_str mp ps
           (data0\<lparr>rooms := pd_update (rooms data0) (rm_room_id room) room', devices := devs'\<rparr>) = Inr data"
        by blast
      let ?rooms' = "pd_update (rooms data0) (rm_room_id room) room'"
      let ?data1 = "data0\<lparr>rooms := ?rooms', devices := devs'\<rparr>"
      have t: "truthy (rm_room_id room)" using Inr Some build_room_truthy by blast
      have "\<forall>k\<in>fst ` set ?rooms'. truthy k"
        using pd_update_key [of _ _ "rooms data0" "rm_room_id room" room'] Cons.prems(2) t
        by force
      then have A: "\<forall>k\<in>fst ` set (rooms ?data1). truthy k" by simp
      have "distinct (map (\<lambda>kv. key_norm (fst kv)) ?rooms')"
        using Cons.prems(3) by (rule pd_update_distinct)
      then have B: "distinct (map (\<lambda>kv. key_norm (fst kv)) (rooms ?data1))" by simp
      from rest A B show ?thesis by (rule Cons.IH)
    qed
  qed
qed

lemma pass_hashable_room:
  assumes "process_other_device b dd data = Inr data'"
    and "build_other_device b (rooms data) dd = Inr d"
  shows "\<exists>has. truthy_member (rooms data) (room_id d) = Inr has"
  using assms unfolding process_other_device_def bind_eq_Inr by auto

lemma loop_name_rooms:
  assumes "process_other_devices b dds data = Inr data'" and "rooms_name_rooms (rooms data)"
  shows "rooms_name_rooms (rooms data')"
  using assms
proof (induction dds arbitrary: data)
  case Nil
  then show ?case by simp
next
  case (Cons dd dds)
  from Cons.prems obtain data1 where p: "process_other_device b dd data = Inr data1"
    and l: "process_other_devices b dds data1 = Inr data'"
    by (auto split: sum.splits)
  from pass_char [OF p] obtain d where bd: "build_other_device b (rooms data) dd = Inr d"
    and d: "rooms data1 = attach_device (rooms data) d" by auto
  from pass_hashable_room [OF p bd] obtain has where
    has: "truthy_member (rooms data) (room_id d) = Inr has" by blast
  have sn: "truthy_member (rooms data1) = truthy_member (rooms data)"
    using same_names_member [OF same_names_attach [of "rooms data" d]] d by simp
  have "rooms_name_rooms (rooms data1)"
    unfolding rooms_name_rooms_def
  proof (intro allI impI ballI)
    fix k room' x
    assume lk: "pd_lookup (rooms data1) k = Some room'" and x: "x \<in> set (rm_devices room')"
    from lk obtain room where r: "pd_lookup (rooms data) k = Some room"
      and r': "room' = (if truthy (room_id d) \<and> key_norm (room_id d) = key_norm k
                then room\<lparr>rm_devices := rm_devices room @ [d]\<rparr> else room)"
      by (auto simp: d pd_lookup_attach split: option.splits)
    show "truthy_member (rooms data1) (room_id x) = Inr True"
    proof (cases "x \<in> set (rm_devices room)")
      case True
      with r Cons.prems(2) show ?thesis
        unfolding sn rooms_name_rooms_def by blast
    next
      case False
      with x r' have xd: "x = d" and tr: "truthy (room_id d)"
        and kn: "key_norm (room_id d) = key_norm k"
        by (auto split: if_splits)
      have "pd_lookup (rooms data) (room_id d) = Some room"
        using r pd_lookup_norm [OF kn, of "rooms data"] by simp
      with has tr show ?thesis
        unfolding sn xd by (auto simp: truthy_member_def pd_member_def split: if_splits)
    qed
  qed
  with Cons.IH [OF l] show ?case .
qed

lemma build_other_device_room:
  "build_other_device b rs dd = Inr d \<Longrightarrow>
   other_device_room b rs dd = Inr (room_id d, room_name d)"
  unfolding build_other_device_def
  by ((erule bindE | clarsimp)+)

lemma other_device_tr04:
  assumes bd: "build_other_device b rs dd = Inr d"
    and raw: "dict_get dd ''roomId'' = Inr rid" "\<not> truthy rid \<or> pd_lookup rs rid = None"
    and tr04: "dict_get_default dd ''type'' (JStr []) = Inr (JStr ''TR04'')"
  shows "if truthy b
         then room_id d = b \<and> (\<exists>room. pd_lookup rs b = Some room \<and> room_name d = name room)
         else room_id d = rid \<and> room_name d = JNull"
proof -
  define r n where "r = room_id d" and "n = room_name d"
  then have odr: "other_device_room b rs dd = Inr (r, n)"
    and d: "room_id d = r" "room_name d = n"
    using build_other_device_room [OF bd] by simp_all
  have eq: "other_device_room b rs dd =
      bind (truthy_member rs rid) (\<lambda>named.
        if named then bind (room_name_of rs rid) (\<lambda>other_room_name. Inr (rid, other_room_name))
        else if truthy b then bind (room_name_of rs b) (\<lambda>other_room_name. Inr (b, other_room_name))
        else Inr (rid, JNull))"
    unfolding other_device_room_def by (simp add: raw(1) tr04)
  from odr [unfolded eq] obtain named where nm: "truthy_member rs rid = Inr named"
    and rest: "(if named then bind (room_name_of rs rid) (\<lambda>other_room_name. Inr (rid, other_room_name))
       else if truthy b then bind (room_name_of rs b) (\<lambda>other_room_name. Inr (b, other_room_name))
       else Inr (rid, JNull)) = Inr (r, n)"
    by (rule bindE)
  from nm raw(2) have "\<not> named"
    by (auto simp: truthy_member_def pd_member_def split: if_splits)
  with rest show ?thesis
    unfolding d
    by (auto simp: bind_eq_Inr room_name_of_def split: if_splits option.splits)
qed

subsection \<open>The room of a wall thermostat\<close>

text \<open>
  Claim C6, amended: the device counts are those of the rooms when all room-state
  payloads have been processed, before any other device is attached to a room. The
  rooms of the cycle are built by \<open>process_rooms\<close>, and
  \<open>find_room_with_most_devices\<close> gives the pair \<open>(b, m)\<close> for them; then the loop over
  the other devices runs. Take the other-device payload at index \<open>i\<close>, of type \<open>TR04\<close>,
  whose room id is not the id of a room built. No room built has more than \<open>m\<close> devices.
  If \<open>m > 0\<close>, then \<open>b\<close> is the key of the first room, in the order of the dict, with
  \<open>m\<close> devices, and the device gets room id \<open>b\<close> and that room's name and is in the
  device list of room \<open>b\<close> in the snapshot. If no room has a device, the device keeps the
  payload's room id, has no room name and is in no room's device list.
\<close>

theorem thermostat_joins_room_with_most_devices:
  assumes built: "process_rooms py_str room_devices_map rooms_data data0 = Inr data"
      "rooms data0 = []"
    and most: "find_room_with_most_devices (rooms data) = (b, m)"
    and loop: "process_other_devices b dds data = Inr data'"
    and i: "i < length dds"
    and raw: "dict_get (dds ! i) ''roomId'' = Inr rid"
      "\<not> truthy rid \<or> pd_lookup (rooms data) rid = None"
    and tr04: "dict_get_default (dds ! i) ''type'' (JStr []) = Inr (JStr ''TR04'')"
  shows "(\<forall>item\<in>set (rooms data). length (rm_devices (snd item)) \<le> m) \<and>
    (0 < m \<longrightarrow>
       (\<exists>j<length (rooms data).
          fst (rooms data ! j) = b \<and> length (rm_devices (snd (rooms data ! j))) = m \<and>
          (\<forall>j'<j. length (rm_devices (snd (rooms data ! j'))) < m) \<and>
          room_id (other_devices data' ! (length (other_devices data) + i)) = b \<and>
          room_name (other_devices data' ! (length (other_devices data) + i)) =
            name (snd (rooms data ! j)) \<and>
          (\<exists>room'. pd_lookup (rooms data') b = Some room' \<and>
             other_devices data' ! (length (other_devices data) + i) \<in> set (rm_devices room')))) \<and>
    (m = 0 \<longrightarrow>
       room_id (other_devices data' ! (length (other_devices data) + i)) = rid \<and>
       room_name (other_devices data' ! (length (other_devices data) + i)) = JNull \<and>
       (\<forall>k room. pd_lookup (rooms data') k = Some room \<longrightarrow>
          other_devices data' ! (length (other_devices data) + i) \<notin> set (rm_devices room)))"
proof -
  let ?rs = "rooms data"
  let ?n = "length (other_devices data)"
  \<comment> \<open>the rooms built: truthy, pairwise different keys\<close>
  have keys: "\<forall>k\<in>fst ` set ?rs. truthy k"
    and dist: "distinct (map (\<lambda>kv. key_norm (fst kv)) ?rs)"
    using process_rooms_keys [OF built(1)] built(2) by simp_all
  \<comment> \<open>the room with the most devices\<close>
  from most have fold: "fold most_devices_step ?rs (JNull, 0) = (b, m)"
    by (simp add: find_room_with_most_devices_def)
  note mf = most_devices_fold [OF fold]
  \<comment> \<open>the pass for the device at index i\<close>
  have split: "dds = take i dds @ dds ! i # drop (Suc i) dds"
    using i by (simp add: id_take_nth_drop)
  obtain data1 data2 where
    pre: "process_other_devices b (take i dds) data = Inr data1"
    and pass: "process_other_device b (dds ! i) data1 = Inr data2"
    and post: "process_other_devices b (drop (Suc i) dds) data2 = Inr data'"
  proof -
    have "process_other_devices b (take i dds @ dds ! i # drop (Suc i) dds) data = Inr data'"
      using loop split by simp
    then show ?thesis
      using that by (auto simp: loop_append split: sum.splits)
  qed
  from pass_char [OF pass] obtain d where
    bd1: "build_other_device b (rooms data1) (dds ! i) = Inr d"
    and r2: "rooms data2 = attach_device (rooms data1) d"
    and o2: "other_devices data2 = other_devices data1 @ [d]"
    by auto
  note inv1 = loop_inv [OF pre]
  note inv2 = loop_inv [OF post]
  from inv1 have sn1: "same_names ?rs (rooms data1)" by blast
  have bd: "build_other_device b ?rs (dds ! i) = Inr d"
    using bd1 same_names_build [OF sn1] by simp
  from inv1 obtain ds1 where ds1: "other_devices data1 = other_devices data @ ds1"
      "length ds1 = i"
    using i by auto
  from inv2 obtain ds2 where ds2: "other_devices data' = other_devices data2 @ ds2" by blast
  have nth: "other_devices data' ! (?n + i) = d"
    unfolding ds2 o2 ds1(1) using ds1(2) by (simp add: nth_append)
  note assoc = other_device_tr04 [OF bd raw tr04]
  have first: "\<forall>item\<in>set ?rs. length (rm_devices (snd item)) \<le> m"
    using mf by blast
  have pos: ?thesis if m: "0 < m"
  proof -
    from mf m obtain j where j: "j < length ?rs" "fst (?rs ! j) = b"
        "length (rm_devices (snd (?rs ! j))) = m"
        "\<forall>j'<j. length (rm_devices (snd (?rs ! j'))) < m"
      by blast
    have mem: "(b, snd (?rs ! j)) \<in> set ?rs"
      using j(1,2) by (metis nth_mem prod.collapse)
    then have tb: "truthy b" using keys by force
    have lk: "pd_lookup ?rs b = Some (snd (?rs ! j))"
      using pd_lookup_distinct [OF dist mem] .
    from assoc tb lk have d: "room_id d = b" "room_name d = name (snd (?rs ! j))"
      by auto
    \<comment> \<open>the device joins the room's list in this pass and stays there\<close>
    from sn1 lk obtain room1 where l1: "pd_lookup (rooms data1) b = Some room1"
      unfolding same_names_def by (metis map_option_eq_Some option.simps(9))
    have "pd_lookup (rooms data2) b = Some (room1\<lparr>rm_devices := rm_devices room1 @ [d]\<rparr>)"
      unfolding r2 using l1 tb d(1) by (simp add: pd_lookup_attach)
    with inv2 obtain room' where "pd_lookup (rooms data') b = Some room'"
        "set (rm_devices (room1\<lparr>rm_devices := rm_devices room1 @ [d]\<rparr>)) \<subseteq> set (rm_devices room')"
      by blast
    then have "\<exists>room'. pd_lookup (rooms data') b = Some room' \<and> d \<in> set (rm_devices room')"
      by auto
    with j d first m show ?thesis unfolding nth by auto
  qed
  have zero: ?thesis if m: "m = 0"
  proof -
    from mf m have "b = JNull" by simp
    with assoc have d: "room_id d = rid" "room_name d = JNull" by auto
    \<comment> \<open>no room has a device at the start of the loop\<close>
    have empty: "rm_devices room = []" if "pd_lookup ?rs k = Some room" for k room
      using pd_lookup_in_set [OF that] first m by force
    then have "rooms_name_rooms ?rs"
      by (auto simp: rooms_name_rooms_def)
    from loop_name_rooms [OF loop this] have nr: "rooms_name_rooms (rooms data')" .
    have sn: "same_names ?rs (rooms data')" using loop_inv [OF loop] by blast
    have "truthy_member (rooms data') rid \<noteq> Inr True"
      using raw(2) unfolding same_names_member [OF sn, symmetric]
      by (auto simp: truthy_member_def pd_member_def)
    then have "\<forall>k room. pd_lookup (rooms data') k = Some room \<longrightarrow> d \<notin> set (rm_devices room)"
      using nr d(1) unfolding rooms_name_rooms_def by metis
    with d first m show ?thesis unfolding nth by simp
  qed
  from pos zero show ?thesis by blast
qed

lemmas eval_simps =
  build_room_def build_device_def dict_get_def dict_get_or_empty_def or_empty_def
  manual_control_fields_def pd_get_def pd_store_def pd_member_def truthy_member_def
  room_name_of_def append_room_device_def other_device_room_def build_other_device_def
  process_other_device_def most_devices_step_def find_room_with_most_devices_def
  or_empty_list_def bind_def

lemma example_built_eq:
  "process_rooms (\<lambda>_. ''?'') example_room_devices_map example_rooms_data empty_data
     = Inr example_built"
  unfolding example_built_def
  by (simp add: example_rooms_data_def example_room_devices_map_def empty_data_def eval_simps)

lemma example_most: "find_room_with_most_devices (rooms example_built) = (JNum 7, 3)"
  unfolding example_built_def
  by (simp add: example_rooms_data_def example_room_devices_map_def empty_data_def eval_simps)

lemma example_snapshot_eq:
  "process_other_devices (JNum 7) example_other_devices example_built = Inr example_snapshot"
  unfolding example_snapshot_def example_built_def
  by (simp add: example_rooms_data_def example_room_devices_map_def empty_data_def
      example_other_devices_def eval_simps)

theorem thermostat_joins_room_with_most_devices_witness:
  "process_rooms (\<lambda>_. ''?'') example_room_devices_map example_rooms_data empty_data
     = Inr example_built \<and>
   rooms empty_data = [] \<and>
   find_room_with_most_devices (rooms example_built) = (JNum 7, 3) \<and>
   process_other_devices (JNum 7) example_other_devices example_built = Inr example_snapshot \<and>
   (1::nat) < length example_other_devices \<and>
   dict_get (example_other_devices ! 1) ''roomId'' = Inr JNull \<and>
   dict_get_default (example_other_devices ! 1) ''type'' (JStr []) = Inr (JStr ''TR04'') \<and>
   room_id (other_devices example_snapshot ! 1) = JNum 7 \<and>
   room_name (other_devices example_snapshot ! 1) = JStr ''Bath'' \<and>
   (\<exists>room'. pd_lookup (rooms example_snapshot) (JNum 7) = Some room' \<and>
      other_devices example_snapshot ! 1 \<in> set (rm_devices room'))"
proof -
  have h2: "rooms empty_data = []" by (simp add: empty_data_def)
  have h5: "(1::nat) < length example_other_devices" by (simp add: example_other_devices_def)
  have h6: "dict_get (example_other_devices ! 1) ''roomId'' = Inr JNull"
    by (simp add: example_other_devices_def dict_get_def)
  have h7: "\<not> truthy JNull \<or> pd_lookup (rooms example_built) JNull = None" by simp
  have h8: "dict_get_default (example_other_devices ! 1) ''type'' (JStr []) = Inr (JStr ''TR04'')"
    by (simp add: example_other_devices_def)
  have n0: "length (other_devices example_built) = 0"
    unfolding example_built_def
    by (simp add: example_rooms_data_def example_room_devices_map_def empty_data_def eval_simps)
  have names: "\<forall>j<length (rooms example_built). fst (rooms example_built ! j) = JNum 7 \<longrightarrow>
      name (snd (rooms example_built ! j)) = JStr ''Bath''"
    unfolding example_built_def
    by (simp add: example_rooms_data_def example_room_devices_map_def empty_data_def eval_simps
        less_Suc_eq)
  from thermostat_joins_room_with_most_devices
    [OF example_built_eq h2 example_most example_snapshot_eq h5 h6 h7 h8]
  show ?thesis
    using example_built_eq h2 example_most example_snapshot_eq h5 h6 h8 n0 names
    by auto
qed

text \<open>
  Claim C6 as stated fails when other devices join a room before the thermostat is
  reached. After the room-state payloads room 1 has one device and room 7 has three.
  Four bridges of room 1 come first among the other devices, so room 1 has five devices
  and room 7 three when the thermostat without a room id is processed; it is put into
  room 7 all the same, and in the snapshot room 1 has five devices and room 7 four.
\<close>

theorem thermostat_after_bridges:
  "process_rooms (\<lambda>_. ''?'') example_room_devices_map example_rooms_data empty_data
     = Inr example_built \<and>
   device_counts (rooms example_built) = [(JNum 1, 1), (JNum 7, 3)] \<and>
   find_room_with_most_devices (rooms example_built) = (JNum 7, 3) \<and>
   dict_get (bridges_then_thermostat ! 4) ''roomId'' = Inr JNull \<and>
   dict_get_default (bridges_then_thermostat ! 4) ''type'' (JStr []) = Inr (JStr ''TR04'') \<and>
   process_other_devices (JNum 7) (take 4 bridges_then_thermostat) example_built
     = Inr bridges_attached \<and>
   device_counts (rooms bridges_attached) = [(JNum 1, 5), (JNum 7, 3)] \<and>
   process_other_devices (JNum 7) bridges_then_thermostat example_built = Inr bridges_snapshot \<and>
   serial_number (other_devices bridges_snapshot ! 4) = JStr ''TR1'' \<and>
   room_id (other_devices bridges_snapshot ! 4) = JNum 7 \<and>
   device_counts (rooms bridges_snapshot) = [(JNum 1, 5), (JNum 7, 4)]"
  unfolding bridges_attached_def bridges_snapshot_def example_built_def
  by (simp add: example_rooms_data_def example_room_devices_map_def empty_data_def
      bridges_then_thermostat_def device_counts_def eval_simps)

subsection \<open>The client: helper lemmas\<close>

lemmas io_defs = io_bind_def io_return_def io_raise_def io_lift_def


subsection \<open>Refreshing the token\<close>


lemma store_polled_Inr:
  assumes "store_polled e data st1 = (Inr b, st')"
  shows "\<exists>kvs token secs. data = JObj kvs \<and> map_of kvs ''access_token'' = Some token \<and>
     py_num (case map_of kvs ''expires_in'' of None \<Rightarrow> JNum 600 | Some v \<Rightarrow> v) = Inr secs \<and>
     b \<and>
     st' = st1\<lparr>access_token := token,
               refresh_token := (case map_of kvs ''refresh_token'' of None \<Rightarrow> JNull | Some v \<Rightarrow> v),
               events := events st1 @ [ClockRead],
               token_expiry := Some (Naive (localnow e (events st1) + secs))\<rparr>"
proof (cases data)
  case (JObj kvs)
  show ?thesis
  proof (cases "map_of kvs ''access_token''")
    case None
    with assms JObj show ?thesis by (simp add: store_polled_def io_defs)
  next
    case (Some token)
    show ?thesis
    proof (cases "py_num (case map_of kvs ''expires_in'' of None \<Rightarrow> JNum 600 | Some v \<Rightarrow> v)")
      case (Inl err)
      with assms JObj Some show ?thesis
        by (simp add: store_polled_def io_defs read_local_def dict_get_def)
    next
      case (Inr secs)
      with assms JObj Some show ?thesis
        by (auto simp: store_polled_def io_defs read_local_def dict_get_def split: option.splits)
    qed
  qed
qed (use assms in \<open>simp_all add: store_polled_def io_defs\<close>)

lemma poll_attempt_Some:
  assumes "poll_attempt e device_code interval st1 = (Inr (Some b), st2)"
  shows "b \<and> polled_from e device_code st2"
proof -
  let ?req = "device_code_request e device_code"
  let ?st = "st1\<lparr>events := events st1 @ [Sent ?req]\<rparr>"
  show ?thesis
  proof (cases "session e (events st1) ?req")
    case (Raised err)
    with assms show ?thesis by (simp add: poll_attempt_def io_defs send_def)
  next
    case (Response r)
    show ?thesis
    proof (cases "json_body r")
      case (Inl err)
      with assms Response show ?thesis by (simp add: poll_attempt_def io_defs send_def)
    next
      case (Inr data)
      show ?thesis
      proof (cases "status r = 200")
        case True
        with assms Response Inr have "store_polled e data ?st = (Inr b, st2)"
          by (auto simp: poll_attempt_def io_defs send_def split: prod.splits sum.splits)
        from store_polled_Inr [OF this] obtain kvs token secs where
          d: "data = JObj kvs"
          and s: "py_num (case map_of kvs ''expires_in'' of None \<Rightarrow> JNum 600 | Some v \<Rightarrow> v) = Inr secs"
          and b: b
          and st2: "st2 = ?st\<lparr>access_token := token,
               refresh_token := (case map_of kvs ''refresh_token'' of None \<Rightarrow> JNull | Some v \<Rightarrow> v),
               events := events ?st @ [ClockRead],
               token_expiry := Some (Naive (localnow e (events ?st) + secs))\<rparr>"
          by blast
        have "polled_from e device_code st2"
          unfolding polled_from_def
          apply (rule exI [of _ "events st1"], rule exI [of _ r], rule exI [of _ kvs], rule exI [of _ secs])
          using Response True Inr d s by (simp add: st2)
        with b show ?thesis by simp
      next
        case False
        with assms Response Inr show ?thesis
          by (auto simp: poll_attempt_def io_defs send_def sleep_def
              split: prod.splits sum.splits if_splits)
      qed
    qed
  qed
qed

lemma poll_pass_Some:
  assumes "poll_pass e device_code interval st1 = (Inr (Some b), st2)"
  shows "b \<and> polled_from e device_code st2"
proof -
  have "poll_attempt e device_code interval st1 = (Inr (Some b), st2)"
    using assms
    by (auto simp: poll_pass_def io_defs sleep_def split: prod.splits sum.splits error.splits)
  then show ?thesis by (rule poll_attempt_Some)
qed

lemma poll_loop_True:
  "poll_loop fuel e device_code interval timeout start_time st = Some (Inr True, st') \<Longrightarrow>
   polled_from e device_code st'"
proof (induction fuel arbitrary: st)
  case 0
  then show ?case by simp
next
  case (Suc fuel)
  let ?st1 = "st\<lparr>events := events st @ [ClockRead]\<rparr>"
  let ?now = "localnow e (events st)"
  have rl: "read_local e st = (Inr ?now, ?st1)" by (simp add: read_local_def)
  show ?case
  proof (cases "timedelta_seconds (?now - start_time) < timeout")
    case False
    with Suc.prems rl show ?thesis by simp
  next
    case True
    obtain r st2 where pp: "poll_pass e device_code interval ?st1 = (r, st2)"
      by (cases "poll_pass e device_code interval ?st1")
    show ?thesis
    proof (cases r)
      case (Inl err)
      with Suc.prems rl True pp show ?thesis by simp
    next
      case (Inr res)
      show ?thesis
      proof (cases res)
        case None
        with Suc.prems rl True pp Inr
        have "poll_loop fuel e device_code interval timeout start_time st2 = Some (Inr True, st')"
          by simp
        then show ?thesis by (rule Suc.IH)
      next
        case (Some b)
        with Suc.prems rl True pp Inr have "st2 = st'" by simp
        with poll_pass_Some [of e device_code interval ?st1 b st2] pp Inr Some
        show ?thesis by simp
      qed
    qed
  qed
qed

subsection \<open>Polling for the token\<close>

text \<open>
  Claim C10. When \<open>poll_for_token\<close> returns True, its last request was answered with
  status 200 and a JSON object; the stored refresh token is that object's
  \<open>refresh_token\<close>, and \<open>None\<close> when the key is missing, whatever was held before; and
  the stored expiry is naive: the local clock read after the response plus
  \<open>expires_in\<close> (600 when the key is missing).
\<close>

theorem poll_for_token_stores_response:
  assumes "poll_for_token fuel e device_code interval timeout st = Some (Inr True, st')"
  shows "\<exists>h r kvs secs.
        session e h (device_code_request e device_code) = Response r \<and>
        status r = 200 \<and> json_body r = Inr (JObj kvs) \<and>
        events st' = h @ [Sent (device_code_request e device_code), ClockRead] \<and>
        refresh_token st' = (case map_of kvs ''refresh_token'' of None \<Rightarrow> JNull | Some v \<Rightarrow> v) \<and>
        py_num (case map_of kvs ''expires_in'' of None \<Rightarrow> JNum 600 | Some v \<Rightarrow> v) = Inr secs \<and>
        token_expiry st' =
          Some (Naive (localnow e (h @ [Sent (device_code_request e device_code)]) + secs))"
proof -
  from assms have
    "poll_loop fuel e device_code interval timeout (localnow e (events st))
       (st\<lparr>events := events st @ [ClockRead]\<rparr>) = Some (Inr True, st')"
    by (simp add: poll_for_token_def read_local_def)
  from poll_loop_True [OF this] show ?thesis
    unfolding polled_from_def .
qed

subsection \<open>A task of gather and the request run on its own\<close>

text \<open>
  When \<open>gather\<close> has a single task, the task runs from stage to stage without any other
  task in between, and its write is \<open>_request\<close> as \<open>request\<close> describes it: the stages
  take \<open>request\<close> apart and add nothing to it.
\<close>

lemma request_except_network_error:
  "request_except m st =
     (case m st of (Inl err, st') \<Rightarrow> (Inl (network_error err), st') | (Inr x, st') \<Rightarrow> (Inr x, st'))"
proof (cases "m st")
  case (Pair r st')
  show ?thesis
  proof (cases r)
    case (Inl err)
    with Pair show ?thesis by (cases err) (simp_all add: request_except_def)
  next
    case (Inr x)
    with Pair show ?thesis by (simp add: request_except_def)
  qed
qed

lemma refresh_by_stages:
  "refresh_access_token e st =
     (if \<not> truthy (refresh_token st) then
        (Inl (TadoXAuthError ''No refresh token available''), st)
      else
        (case send e (refresh_request e (refresh_token st)) st of
           (sent, st') \<Rightarrow> token_received e sent st'))"
  by (simp add: refresh_access_token_def token_received_def refresh_except_def
      io_bind_def io_lift_def io_raise_def send_def split: outcome.splits)

lemma ensure_by_stages:
  "ensure_valid_token e =
     io_bind (token_due e) (\<lambda>due.
       if due then io_bind (refresh_access_token e) (\<lambda>_. io_return ()) else io_return ())"
  by (rule ext)
    (simp add: ensure_valid_token_def token_due_def io_bind_def io_return_def
      read_utc_def read_local_def split: option.splits datetime.splits)

lemma gather_single:
  "gather e h [item] [s] st =
     (if remaining s = 0 then ([s], st)
      else
        (case resume e ''PATCH'' (offset_url e h (fst item)) (offset_body (snd item)) s st of
           (s', st') \<Rightarrow> gather e h [item] [s'] st'))"
  by (subst gather.simps)
    (simp add: unfinished_def next_task_def run_task_def split: prod.splits)

lemma request_tails:
  "request e meth u jd =
     io_bind (ensure_valid_token e) (\<lambda>_. request_except (first_tail e meth u jd))"
proof -
  have "answered e meth u jd =
      (\<lambda>response.
         if status response = 401 then
           io_bind (refresh_access_token e) (\<lambda>_.
           io_bind (\<lambda>st. send e (api_request meth u jd (access_token st)) st) retry_result)
         else first_result response)"
    by (rule ext) (simp add: answered_def retry_tail_def)
  then show ?thesis by (simp add: request_def first_tail_def)
qed

lemmas stage_defs =
  returned_of_def request_except_network_error io_bind_def io_lift_def io_return_def
  returning_def send_request_def store_token_def request_token_def

lemma in_try_Returned:
  "in_try (Returned r, st) =
     (Returned (case r of Inl err \<Rightarrow> Inl (network_error err) | Inr x \<Rightarrow> Inr x), st)"
  by (cases r) simp_all

lemma alone_Returned: "gather e h [item] [Returned r] st = ([Returned r], st)"
  by (subst gather_single) simp

lemma alone_RetrySent:
  "gather e h [item] [RetrySent sent] st =
     returned_of (request_except (io_bind (io_lift sent) retry_result)) st"
  by (subst gather_single)
    (simp add: alone_Returned stage_defs in_try_Returned split: sum.splits prod.splits)

lemma alone_RetryTokenStored:
  "gather e h [item] [RetryTokenStored] st =
     returned_of (request_except
       (retry_tail e ''PATCH'' (offset_url e h (fst item)) (offset_body (snd item)))) st"
  by (subst gather_single)
    (simp add: alone_RetrySent retry_tail_def stage_defs split: sum.splits prod.splits)

lemma alone_RetryTokenRequested:
  "gather e h [item] [RetryTokenRequested sent] st =
     returned_of (request_except
       (io_bind (token_received e sent)
          (\<lambda>_. retry_tail e ''PATCH'' (offset_url e h (fst item)) (offset_body (snd item))))) st"
  by (subst gather_single)
    (auto simp: alone_RetryTokenStored alone_Returned stage_defs in_try_Returned
       split: sum.splits prod.splits)

lemma alone_FirstSent:
  "gather e h [item] [FirstSent sent] st =
     returned_of (request_except
       (io_bind (io_lift sent)
          (answered e ''PATCH'' (offset_url e h (fst item)) (offset_body (snd item))))) st"
  by (subst gather_single)
    (auto simp: alone_RetryTokenRequested alone_Returned answered_def refresh_by_stages
       stage_defs in_try_Returned
       split: sum.splits prod.splits)

lemma alone_TokenStored:
  "gather e h [item] [TokenStored] st =
     returned_of (request_except
       (first_tail e ''PATCH'' (offset_url e h (fst item)) (offset_body (snd item)))) st"
  by (subst gather_single)
    (simp add: alone_FirstSent first_tail_def stage_defs split: sum.splits prod.splits)

lemma alone_TokenRequested:
  "gather e h [item] [TokenRequested sent] st =
     returned_of (io_bind (token_received e sent)
       (\<lambda>_. request_except
          (first_tail e ''PATCH'' (offset_url e h (fst item)) (offset_body (snd item))))) st"
  by (subst gather_single)
    (auto simp: alone_TokenStored alone_Returned stage_defs split: sum.splits prod.splits)

lemma gather_alone:
  "gather e h [(serial, offset)] [Starting] st =
     ([Returned (fst (offset_write e h serial offset st))], snd (offset_write e h serial offset st))"
  by (subst gather_single)
    (auto simp: alone_TokenRequested alone_FirstSent alone_Returned offset_write_def
       request_tails ensure_by_stages refresh_by_stages first_tail_def stage_defs
       split: sum.splits prod.splits)

subsection \<open>Offsets of several devices\<close>








lemma written_Returned [simp]: "written (map Returned rs) = rs"
  by (induction rs) simp_all





subsection \<open>The retry after a 401\<close>


lemmas api_eval =
  request_def request_except_def io_bind_def io_return_def io_raise_def io_lift_def send_def
  read_utc_def read_local_def sleep_def refresh_access_token_def refresh_except_def
  store_refreshed_def refresh_request_def ensure_valid_token_def api_request_def
  retry_result_def first_result_def api_error_def str_int_def str_nat.simps digit_char_def
  example_session_def example_env_def example_api_def dict_get_def

text \<open>
  Claim C2 as stated fails when no refresh token is held: the first request is answered
  with 401, the refresh raises TadoXAuthError, and the client has sent one request to
  the API and none to the token endpoint.
\<close>

theorem request_401_without_refresh_token:
  "ensure_valid_token (example_env 401 200) (example_api JNull) = (Inr (), example_api JNull) \<and>
   session (example_env 401 200) (events (example_api JNull))
     (api_request ''GET'' ''https://hops/homes/5/rooms'' None (access_token (example_api JNull)))
     = Response \<lparr>status = 401, content_length = Some 0, body_text = [], json_body = Inl ValueError\<rparr> \<and>
   fst (request (example_env 401 200) ''GET'' ''https://hops/homes/5/rooms'' None (example_api JNull))
     = Inl (TadoXAuthError ''No refresh token available'') \<and>
   count_sent ''https://hops/homes/5/rooms''
     (events (snd (request (example_env 401 200) ''GET'' ''https://hops/homes/5/rooms'' None
        (example_api JNull)))) = 1 \<and>
   count_sent ''https://token''
     (events (snd (request (example_env 401 200) ''GET'' ''https://hops/homes/5/rooms'' None
        (example_api JNull)))) = 0"
  by (simp add: api_eval count_sent_def)

subsection \<open>Status 204\<close>

text \<open>
  Claim C8. A first response with status 204 gives \<open>None\<close>. The same response to the
  retry after a 401 raises TadoXApiError instead, since the retry accepts status 200
  only.
\<close>

theorem retry_204_raises:
  "fst (request (example_env 204 204) ''DELETE'' ''https://hops/homes/5/rooms/1/openWindow'' None
         (example_api (JStr ''r0''))) = Inr JNull \<and>
   fst (request (example_env 401 204) ''DELETE'' ''https://hops/homes/5/rooms/1/openWindow'' None
         (example_api (JStr ''r0''))) = Inl (TadoXApiError ''API error: 204 - '')"
  by (simp add: api_eval)




lemmas poll_eval =
  poll_for_token_def poll_pass_def poll_attempt_def store_polled_def device_code_request_def
  timedelta_seconds_def

lemma polled_example_run:
  "poll_for_token 3 (example_env 401 200) ''device-code'' 5 300 (example_api (JStr ''r0''))
     = Some (Inr True, polled_example)"
  unfolding polled_example_def
  by (simp add: numeral_3_eq_3 poll_eval api_eval)

theorem poll_for_token_stores_response_witness:
  "poll_for_token 3 (example_env 401 200) ''device-code'' 5 300 (example_api (JStr ''r0''))
     = Some (Inr True, polled_example) \<and>
   refresh_token (example_api (JStr ''r0'')) = JStr ''r0'' \<and>
   refresh_token polled_example = JNull \<and>
   token_expiry polled_example = Some (Naive (4600 + 3600))"
proof -
  let ?e = "example_env 401 200"
  let ?req = "device_code_request ?e ''device-code''"
  from poll_for_token_stores_response [OF polled_example_run] obtain h r kvs secs where
    r: "session ?e h ?req = Response r"
    and j: "json_body r = Inr (JObj kvs)"
    and k: "refresh_token polled_example =
        (case map_of kvs ''refresh_token'' of None \<Rightarrow> JNull | Some v \<Rightarrow> v)"
    and s: "py_num (case map_of kvs ''expires_in'' of None \<Rightarrow> JNum 600 | Some v \<Rightarrow> v) = Inr secs"
    and x: "token_expiry polled_example = Some (Naive (localnow ?e (h @ [Sent ?req]) + secs))"
    by blast
  from r j have kvs: "kvs = [(''access_token'', JStr ''new''), (''expires_in'', JNum 3600)]"
    by (auto simp: example_env_def example_session_def device_code_request_def)
  from s kvs have secs: "secs = 3600" by simp
  have "refresh_token polled_example = JNull" using k kvs by simp
  moreover have "token_expiry polled_example = Some (Naive (4600 + 3600))"
    using x secs by (simp add: example_env_def)
  ultimately show ?thesis
    using polled_example_run by (simp add: example_api_def)
qed





subsection \<open>The offset sync\<close>







subsection \<open>The poll cycle with auto offset sync\<close>

lemma quietI: "(\<And>st. count_sync (events (snd (m st))) = count_sync (events st)) \<Longrightarrow> quiet m"
  by (simp add: quiet_def)

lemma quietD: "quiet m \<Longrightarrow> count_sync (events (snd (m st))) = count_sync (events st)"
  by (simp add: quiet_def)

lemma quiet_bind: "quiet m \<Longrightarrow> (\<And>x. quiet (f x)) \<Longrightarrow> quiet (io_bind m f)"
proof (rule quietI)
  fix st :: TadoXApi
  assume m: "quiet m" and f: "\<And>x. quiet (f x)"
  obtain r st1 where ms: "m st = (r, st1)" by (cases "m st")
  have c1: "count_sync (events st1) = count_sync (events st)"
    using quietD [OF m, of st] ms by simp
  show "count_sync (events (snd (io_bind m f st))) = count_sync (events st)"
  proof (cases r)
    case (Inl err)
    with ms c1 show ?thesis by (simp add: io_bind_def)
  next
    case (Inr x)
    with ms c1 quietD [OF f, of x st1] show ?thesis by (simp add: io_bind_def)
  qed
qed

lemma quiet_return: "quiet (io_return x)" by (simp add: quiet_def io_return_def)
lemma quiet_raise: "quiet (io_raise err)" by (simp add: quiet_def io_raise_def)
lemma quiet_lift: "quiet (io_lift r)" by (simp add: quiet_def io_lift_def)
lemma quiet_send: "quiet (send e req)" by (simp add: quiet_def send_def count_sync_def)
lemma quiet_read_utc: "quiet (read_utc e)" by (simp add: quiet_def read_utc_def count_sync_def)
lemma quiet_read_local: "quiet (read_local e)" by (simp add: quiet_def read_local_def count_sync_def)

lemma quiet_state_only:
  "(\<And>st. events (g st) = events st) \<Longrightarrow> quiet (\<lambda>st. (r st, g st))"
  by (simp add: quiet_def)

lemma quiet_with_state: "(\<And>st. quiet (m st)) \<Longrightarrow> quiet (\<lambda>st. m st st)"
  by (simp add: quiet_def)

lemma quiet_refresh_except: "quiet m \<Longrightarrow> quiet (refresh_except m)"
proof (rule quietI)
  fix st :: TadoXApi
  assume m: "quiet m"
  have "snd (refresh_except m st) = snd (m st)"
    by (simp add: refresh_except_def split: prod.splits sum.splits error.splits)
  then show "count_sync (events (snd (refresh_except m st))) = count_sync (events st)"
    using quietD [OF m, of st] by simp
qed

lemma quiet_request_except: "quiet m \<Longrightarrow> quiet (request_except m)"
proof (rule quietI)
  fix st :: TadoXApi
  assume m: "quiet m"
  have "snd (request_except m st) = snd (m st)"
    by (simp add: request_except_def split: prod.splits sum.splits error.splits)
  then show "count_sync (events (snd (request_except m st))) = count_sync (events st)"
    using quietD [OF m, of st] by simp
qed

lemma quiet_update_except: "quiet m \<Longrightarrow> quiet (update_except m)"
proof (rule quietI)
  fix st :: TadoXApi
  assume m: "quiet m"
  have "snd (update_except m st) = snd (m st)"
    by (simp add: update_except_def split: prod.splits sum.splits error.splits)
  then show "count_sync (events (snd (update_except m st))) = count_sync (events st)"
    using quietD [OF m, of st] by simp
qed

lemmas quiet_intros =
  quiet_bind quiet_return quiet_raise quiet_lift quiet_send quiet_read_utc quiet_read_local

lemma quiet_store_refreshed: "quiet (store_refreshed e data)"
  unfolding store_refreshed_def
  by (intro quiet_intros quiet_state_only) simp_all

lemma quiet_refresh: "quiet (refresh_access_token e)"
proof (rule quietI)
  fix st :: TadoXApi
  have "quiet (refresh_except
          (io_bind (send e (refresh_request e (refresh_token st))) (\<lambda>response.
           if status response \<noteq> 200 then
             io_raise (TadoXAuthError (''Failed to refresh token: '' @ str_int (status response)))
           else
             io_bind (io_lift (json_body response)) (store_refreshed e))))"
    by (intro quiet_refresh_except quiet_bind quiet_send)
       (auto intro: quiet_intros quiet_store_refreshed)
  from quietD [OF this, of st]
  show "count_sync (events (snd (refresh_access_token e st))) = count_sync (events st)"
    by (simp add: refresh_access_token_def)
qed

lemma quiet_ensure: "quiet (ensure_valid_token e)"
proof (rule quietI)
  fix st :: TadoXApi
  have a: "quiet (io_bind (read_utc e) (\<lambda>now.
               if now \<ge> x - 60 then io_bind (refresh_access_token e) (\<lambda>_. io_return ())
               else io_return ()))" for x
    by (intro quiet_bind quiet_read_utc) (auto intro: quiet_intros quiet_refresh)
  have b: "quiet (io_bind (read_utc e) (\<lambda>_.
             io_bind (read_local e) (\<lambda>now.
               if now \<ge> x - 60 then io_bind (refresh_access_token e) (\<lambda>_. io_return ())
               else io_return ())))" for x
    by (intro quiet_bind quiet_read_utc quiet_read_local) (auto intro: quiet_intros quiet_refresh)
  show "count_sync (events (snd (ensure_valid_token e st))) = count_sync (events st)"
    using quietD [OF a, of _ st] quietD [OF b, of _ st]
    by (simp add: ensure_valid_token_def split: option.splits datetime.splits)
qed

lemma quiet_retry_result: "quiet (retry_result r)"
  unfolding retry_result_def by (auto intro: quiet_intros)

lemma quiet_first_result: "quiet (first_result r)"
  unfolding first_result_def by (auto intro: quiet_intros)

lemma quiet_send_current:
  "quiet (\<lambda>st. send e (api_request meth u jd (access_token st)) st)"
  by (simp add: quiet_def send_def count_sync_def)

lemma quiet_retry: 
  "quiet (io_bind (refresh_access_token e) (\<lambda>_.
          io_bind (\<lambda>st. send e (api_request meth u jd (access_token st)) st) retry_result))"
  by (intro quiet_bind quiet_refresh quiet_send_current quiet_retry_result)

lemma quiet_request: "quiet (request e meth u jd)"
  unfolding request_def
proof (intro quiet_bind quiet_ensure quiet_request_except quiet_send_current)
  fix x :: unit and response :: http_response
  show "quiet (if status response = 401
          then io_bind (refresh_access_token e)
                 (\<lambda>_. io_bind (\<lambda>st. send e (api_request meth u jd (access_token st)) st)
                        retry_result)
          else first_result response)"
    using quiet_retry [of e meth u jd] quiet_first_result [of response] by simp
qed

lemma quiet_with_home: "(\<And>h. quiet (f h)) \<Longrightarrow> quiet (with_home f)"
  by (simp add: quiet_def with_home_def)

lemma quiet_getters:
  "quiet (get_home_state e)" "quiet (get_mobile_devices e)" "quiet (set_presence e p)"
  "quiet (get_rooms e)" "quiet (get_rooms_and_devices e)"
  unfolding get_home_state_def get_mobile_devices_def set_presence_def get_rooms_def
    get_rooms_and_devices_def
  by (intro quiet_with_home quiet_bind quiet_request quiet_return)+

lemma quiet_geofencing: "quiet (async_geofencing_check e home_state)"
proof (rule quietI)
  fix st :: TadoXApi
  have "quiet (geofencing_try e home_state)"
    unfolding geofencing_try_def
    by (intro quiet_bind quiet_lift quiet_getters) (auto intro: quiet_intros quiet_getters)
  from quietD [OF this, of st]
  show "count_sync (events (snd (async_geofencing_check e home_state st))) = count_sync (events st)"
    by (auto simp: async_geofencing_check_def split: prod.splits sum.splits)
qed

lemma quiet_sync_if_configured: "quiet (sync_if_configured e self data)"
  by (simp add: sync_if_configured_def offset_mappings_def quiet_def io_bind_def io_lift_def
      io_return_def)

lemma quiet_update: "quiet (async_update_data e self)"
  unfolding async_update_data_def
  by (intro quiet_update_except quiet_bind quiet_getters quiet_lift quiet_sync_if_configured)
     (auto intro: quiet_intros quiet_geofencing)

lemma io_bind_Inr:
  assumes "io_bind m f st = (Inr y, st')"
  obtains x st1 where "m st = (Inr x, st1)" and "f x st1 = (Inr y, st')"
  using assms by (auto simp: io_bind_def split: prod.splits sum.splits)

lemma sync_if_configured_raises:
  "auto_offset_sync self \<Longrightarrow> sync_if_configured e self data st = (Inl AttributeError, st)"
  by (simp add: sync_if_configured_def offset_mappings_def io_bind_def io_lift_def)

text \<open>
  Claim C1. With auto offset sync enabled, \<open>_async_update_data\<close> never returns a
  snapshot: whatever the API answers, the call raises UpdateFailed, and it does not
  enter \<open>_auto_sync_temperature_offsets\<close>, whose entries are counted by \<open>count_sync\<close>.
  When the snapshot has been built, the condition of line 327 reads
  \<open>self.offset_mappings\<close>, which raises AttributeError, and the last \<open>except\<close> clause
  turns it into UpdateFailed.
\<close>

theorem update_fails_with_auto_offset_sync:
  assumes "auto_offset_sync self"
  shows "(\<exists>prefix cause. fst (async_update_data e self st) = Inl (UpdateFailed prefix cause)) \<and>
         count_sync (events (snd (async_update_data e self st))) = count_sync (events st)"
proof -
  let ?m = "io_bind (get_home_state e) (\<lambda>home_state.
        io_bind (io_lift (dict_get home_state ''presence'')) (\<lambda>presence_v.
        io_bind (if geofencing_enabled self
                 then io_bind (async_geofencing_check e home_state) (\<lambda>_. io_return ())
                 else io_return ()) (\<lambda>_.
        io_bind (get_rooms e) (\<lambda>rooms_data.
        io_bind (get_rooms_and_devices e) (\<lambda>rooms_devices_data.
        io_bind (io_lift (build_snapshot (value_str e) (coord_home_id self) (coord_home_name self)
                            presence_v rooms_data rooms_devices_data)) (\<lambda>data.
        io_bind (sync_if_configured e self data) (\<lambda>_.
        io_return data)))))))"
  have no: "?m st \<noteq> (Inr y, st')" for y st'
  proof
    assume "?m st = (Inr y, st')"
    then obtain data s1 u s2 where "sync_if_configured e self data s1 = (Inr u, s2)"
      by (elim io_bind_Inr)
    with sync_if_configured_raises [OF assms] show False by simp
  qed
  obtain r st' where m: "?m st = (r, st')" by (cases "?m st")
  with no obtain err where "r = Inl err" by (cases r) auto
  with m have "\<exists>prefix cause. fst (update_except ?m st) = Inl (UpdateFailed prefix cause)"
    by (cases err) (simp_all add: update_except_def)
  then show ?thesis
    using quietD [OF quiet_update, of e self st] by (simp add: async_update_data_def)
qed



lemmas update_eval =
  async_update_data_def update_except_def sync_if_configured_def offset_mappings_def
  get_home_state_def get_rooms_def get_rooms_and_devices_def with_home_def home_id_unset_def
  home_str_def build_snapshot_def or_empty_list_def dict_or_empty.simps list_or_empty.simps
  find_room_with_most_devices_def syncing_coordinator_def

theorem update_fails_with_auto_offset_sync_witness:
  "auto_offset_sync syncing_coordinator \<and> room_configs syncing_coordinator = [sync_config] \<and>
   fst (async_update_data (example_env 200 200) syncing_coordinator (example_api (JStr ''r0'')))
     = Inl (UpdateFailed ''Unexpected error'' AttributeError) \<and>
   count_sync (events (snd (async_update_data (example_env 200 200) syncing_coordinator
      (example_api (JStr ''r0''))))) = 0 \<and>
   fst (async_update_data (example_env 200 200) (syncing_coordinator\<lparr>auto_offset_sync := False\<rparr>)
      (example_api (JStr ''r0'')))
     = Inr \<lparr>home_id = 5, home_name = ''Home'', presence = JNull,
            rooms = [], devices = [], other_devices = []\<rparr>"
proof -
  have a: "auto_offset_sync syncing_coordinator" by (simp add: syncing_coordinator_def)
  have c: "count_sync (events (example_api (JStr ''r0''))) = 0"
    by (simp add: count_sync_def example_api_def)
  have f: "fst (async_update_data (example_env 200 200) syncing_coordinator (example_api (JStr ''r0'')))
     = Inl (UpdateFailed ''Unexpected error'' AttributeError)"
    by (simp add: update_eval api_eval)
  have g: "fst (async_update_data (example_env 200 200) (syncing_coordinator\<lparr>auto_offset_sync := False\<rparr>)
      (example_api (JStr ''r0'')))
     = Inr \<lparr>home_id = 5, home_name = ''Home'', presence = JNull,
            rooms = [], devices = [], other_devices = []\<rparr>"
    by (simp add: update_eval api_eval)
  from update_fails_with_auto_offset_sync [OF a, of "example_env 200 200" "example_api (JStr ''r0'')"]
  show ?thesis using a c f g by (simp add: syncing_coordinator_def)
qed

end
